theory Spec2Isabelle
  imports Complex_Main
begin

section \<open>The augmented taxi OO-MDP: data model\<close>

text \<open>
  The module \<^verbatim>\<open>AugmentedTaxi2OOMDPClass.py\<close> keeps every world object as an attribute
  dictionary. The attributes that the module reads and writes are fixed, so each object
  class is a record here. Coordinates and the 0/1 flags are Python integers. The agent's
  \<^verbatim>\<open>fuel\<close> attribute is optional: \<open>None\<close> stands for an agent dictionary without that key.
\<close>

record agent =
  ag_x :: int
  ag_y :: int
  has_passenger :: int
  fuel :: "int option"

record passenger =
  pass_x :: int
  pass_y :: int
  dest_x :: int
  dest_y :: int
  in_taxi :: int

record location =
  loc_x :: int
  loc_y :: int

record traffic_cell =
  tr_x :: int
  tr_y :: int
  prob :: real

record fuel_station =
  fs_x :: int
  fs_y :: int
  max_fuel_capacity :: int

text \<open>
  An \<^verbatim>\<open>AugmentedTaxiState\<close> holds the changing objects (the agent, the passengers, the
  hotswap stations) and the terminal and goal flags of the state base class.
\<close>

record taxi_state =
  agent_obj :: agent
  passengers :: "passenger list"
  hotswap_stations :: "location list"
  is_terminal :: bool
  is_goal :: bool

text \<open>
  The MDP object holds the static part of the world. The wall objects are only read by
  a helper outside this module, which answers whether a wall separates two cells; the
  MDP carries that answer as \<open>wall_between\<close>. The amount by which the state class lowers
  the fuel at each step is outside this module too, and is the component \<open>fuel_step\<close>.
  Every result holds for whatever these two are.
\<close>

record mdp =
  width :: int
  height :: int
  slip_prob :: real
  tolls :: "location list"
  traffic_cells :: "traffic_cell list"
  fuel_stations :: "fuel_station list"
  weights :: "real list"
  wall_between :: "int \<times> int \<Rightarrow> int \<times> int \<Rightarrow> bool"
  fuel_step :: int

text \<open>
  The exceptions that the module can raise. A \<^verbatim>\<open>ValueError\<close> comes with one of three
  messages: the action provided was invalid (the message carries the action), the given
  state was not of the correct class, or, from numpy's \<^verbatim>\<open>dot\<close>, the shapes of the two
  arrays are not aligned. An \<^verbatim>\<open>AttributeError\<close> names the attribute that the object lacks.
\<close>

datatype value_error = InvalidAction string | WrongClass | ShapesNotAligned

datatype error = ValueError value_error | AttributeError string

text \<open>
  State objects are mutable and are passed by reference. The store lists the state
  objects allocated so far; a reference is an index into it. \<^verbatim>\<open>copy.deepcopy\<close>
  allocates a new object with the same contents, sharing nothing with the original.
\<close>

type_synonym store = "taxi_state list"

definition deepcopy :: "store \<Rightarrow> nat \<Rightarrow> store \<times> nat" where
  "deepcopy h r = (h @ [h ! r], length h)"

section \<open>State accessors and world queries\<close>

definition get_agent_x :: "taxi_state \<Rightarrow> int" where
  "get_agent_x s = ag_x (agent_obj s)"

definition get_agent_y :: "taxi_state \<Rightarrow> int" where
  "get_agent_y s = ag_y (agent_obj s)"

text \<open>
  Modelled from the spec: \<^verbatim>\<open>AugmentedTaxiState.track_fuel\<close> is not in this module. Fuel
  is an optional attribute of the agent, and fuel tracking is on when it is present.
\<close>

definition track_fuel :: "taxi_state \<Rightarrow> bool" where
  "track_fuel s = (fuel (agent_obj s) \<noteq> None)"

text \<open>
  Modelled from the spec: \<^verbatim>\<open>AugmentedTaxiState.decrement_fuel\<close> is not in this module.
  Fuel decrements by a fixed step amount.
\<close>

definition decrement_fuel :: "int \<Rightarrow> taxi_state \<Rightarrow> taxi_state" where
  "decrement_fuel d s =
     s\<lparr>agent_obj := (agent_obj s)\<lparr>fuel := map_option (\<lambda>f. f - d) (fuel (agent_obj s))\<rparr>\<rparr>"

text \<open>
  Modelled from the spec: \<^verbatim>\<open>taxi_helpers.is_taxi_goal_state\<close> is not in this module. A
  state is a goal state iff every passenger is at its destination and not in the taxi.
\<close>

definition passenger_delivered :: "passenger \<Rightarrow> bool" where
  "passenger_delivered p =
     (pass_x p = dest_x p \<and> pass_y p = dest_y p \<and> in_taxi p = 0)"

definition is_taxi_goal_state :: "taxi_state \<Rightarrow> bool" where
  "is_taxi_goal_state s = list_all passenger_delivered (passengers s)"

text \<open>
  Modelled from the spec: \<^verbatim>\<open>taxi_helpers.at_traffic\<close> is not in this module. It answers
  whether a cell has a traffic entry, and with which probability. The pair (present,
  probability) is an option here.
\<close>

definition at_traffic :: "mdp \<Rightarrow> int \<Rightarrow> int \<Rightarrow> real option" where
  "at_traffic m cx cy =
     map_option prob (find (\<lambda>t. tr_x t = cx \<and> tr_y t = cy) (traffic_cells m))"

text \<open>
  Modelled from the spec: \<^verbatim>\<open>taxi_helpers.at_fuel_station\<close> is not in this module. It
  answers whether a cell is a fuel station, and with which capacity.
\<close>

definition at_fuel_station :: "mdp \<Rightarrow> int \<Rightarrow> int \<Rightarrow> int option" where
  "at_fuel_station m cx cy =
     map_option max_fuel_capacity (find (\<lambda>f. fs_x f = cx \<and> fs_y f = cy) (fuel_stations m))"

text \<open>
  Modelled from the spec: \<^verbatim>\<open>taxi_helpers._is_wall_in_the_way\<close> is not in this module.
  It answers whether the destination cell is separated from the agent's current cell by
  a wall.
\<close>

definition is_wall_in_the_way :: "mdp \<Rightarrow> taxi_state \<Rightarrow> int \<Rightarrow> int \<Rightarrow> bool" where
  "is_wall_in_the_way m s dx dy =
     wall_between m (get_agent_x s, get_agent_y s) (get_agent_x s + dx, get_agent_y s + dy)"

definition agent_at :: "taxi_state \<Rightarrow> location \<Rightarrow> bool" where
  "agent_at s l = (loc_x l = get_agent_x s \<and> loc_y l = get_agent_y s)"

fun first_index :: "('a \<Rightarrow> bool) \<Rightarrow> 'a list \<Rightarrow> nat option" where
  "first_index P [] = None"
| "first_index P (a # as) = (if P a then Some 0 else map_option Suc (first_index P as))"

text \<open>
  Modelled from the spec: \<^verbatim>\<open>taxi_helpers._moved_off_of_hotswap_station\<close> is not in this
  module. The agent moved off of a station when it was on that station's cell in the
  prior state and is no longer on it afterwards; the index is that of the first such
  station in the prior state's list. The pair (bool, index) is an option here.
\<close>

definition moved_off_of_hotswap_station :: "taxi_state \<Rightarrow> taxi_state \<Rightarrow> nat option" where
  "moved_off_of_hotswap_station s s' =
     first_index (\<lambda>l. agent_at s l \<and> \<not> agent_at s' l) (hotswap_stations s)"

text \<open>
  Modelled from the spec: \<^verbatim>\<open>taxi_helpers._moved_off_of_toll\<close> is not in this module. The
  agent's movement from the state to the next state departed a toll cell.
\<close>

definition moved_off_of_toll :: "mdp \<Rightarrow> taxi_state \<Rightarrow> taxi_state \<Rightarrow> bool" where
  "moved_off_of_toll m s s' = list_ex (\<lambda>l. agent_at s l \<and> \<not> agent_at s' l) (tolls m)"

text \<open>
  Modelled from the spec: \<^verbatim>\<open>taxi_helpers._move_pass_in_taxi\<close> is not in this module. A
  passenger with \<^verbatim>\<open>in_taxi == 1\<close> moves with the taxi.
\<close>

definition move_pass :: "int \<Rightarrow> int \<Rightarrow> passenger \<Rightarrow> passenger" where
  "move_pass dx dy p =
     (if in_taxi p = 1 then p\<lparr>pass_x := pass_x p + dx, pass_y := pass_y p + dy\<rparr> else p)"

definition move_pass_in_taxi :: "taxi_state \<Rightarrow> int \<Rightarrow> int \<Rightarrow> taxi_state" where
  "move_pass_in_taxi s dx dy = s\<lparr>passengers := map (move_pass dx dy) (passengers s)\<rparr>"

text \<open>Python's \<^verbatim>\<open>del xs[i]\<close> for an index in range.\<close>

definition del_index :: "nat \<Rightarrow> 'a list \<Rightarrow> 'a list" where
  "del_index i xs = take i xs @ drop (Suc i) xs"

section \<open>Action validation\<close>

definition BASE_ACTIONS :: "string list" where
  "BASE_ACTIONS = [''up'', ''down'', ''left'', ''right'', ''pickup'', ''dropoff'']"

definition AUGMENTED_ACTIONS :: "string list" where
  "AUGMENTED_ACTIONS =
     [''up'', ''down'', ''left'', ''right'', ''pickup'', ''dropoff'', ''refuel'']"

text \<open>
  \<^verbatim>\<open>_error_check\<close> first calls \<^verbatim>\<open>state.track_fuel()\<close>, then tests the action against the
  action set that goes with the answer, and last tests the class of the state. What it
  does depends on the object it is given.

  On an \<^verbatim>\<open>AugmentedTaxiState\<close>, which is what a \<^typ>\<open>taxi_state\<close> is, the call answers and
  the test on the class passes: \<open>error_check\<close> raises \<^verbatim>\<open>ValueError\<close> for an invalid
  action and nothing else.
\<close>

definition error_check :: "taxi_state \<Rightarrow> string \<Rightarrow> error option" where
  "error_check s action =
     (if track_fuel s then
        (if action \<notin> set AUGMENTED_ACTIONS then Some (ValueError (InvalidAction action))
         else None)
      else
        (if action \<notin> set BASE_ACTIONS then Some (ValueError (InvalidAction action))
         else None))"

text \<open>
  On an object of another class \<^verbatim>\<open>_error_check\<close> always raises. Of such an object only
  its \<^verbatim>\<open>track_fuel\<close> method matters: \<open>None\<close> stands for an object without that method,
  \<open>Some b\<close> for an object whose method answers \<open>b\<close>. Without the method the call raises
  \<^verbatim>\<open>AttributeError\<close> before any test is reached; with it, the action is tested first
  and the class second.
\<close>

definition error_check_other :: "bool option \<Rightarrow> string \<Rightarrow> error" where
  "error_check_other tf action =
     (case tf of
        None \<Rightarrow> AttributeError ''track_fuel''
      | Some tracking \<Rightarrow>
          if tracking then
            (if action \<notin> set AUGMENTED_ACTIONS then ValueError (InvalidAction action)
             else ValueError WrongClass)
          else
            (if action \<notin> set BASE_ACTIONS then ValueError (InvalidAction action)
             else ValueError WrongClass))"

section \<open>Action implementations\<close>

text \<open>
  \<^verbatim>\<open>move_agent\<close> returns the state object it was given when a wall is in the way.
  Otherwise it copies the state and moves the agent, and the passengers in the taxi, in
  the copy.
\<close>

definition move_agent :: "mdp \<Rightarrow> store \<Rightarrow> nat \<Rightarrow> int \<Rightarrow> int \<Rightarrow> store \<times> nat" where
  "move_agent m h r dx dy =
     (if is_wall_in_the_way m (h ! r) dx dy then (h, r)
      else
        (let (h1, r1) = deepcopy h r;
             s1 = h1 ! r1;
             a1 = agent_obj s1;
             s2 = s1\<lparr>agent_obj := a1\<lparr>ag_x := ag_x a1 + dx, ag_y := ag_y a1 + dy\<rparr>\<rparr>
         in (h1[r1 := move_pass_in_taxi s2 dx dy], r1)))"

text \<open>
  The loop of \<^verbatim>\<open>agent_pickup\<close> over the passengers: it has no \<^verbatim>\<open>break\<close>, and it tests
  the position only.
\<close>

fun pickup_loop :: "agent \<Rightarrow> passenger list \<Rightarrow> agent \<times> passenger list" where
  "pickup_loop a [] = (a, [])"
| "pickup_loop a (p # ps) =
     (if ag_x a = pass_x p \<and> ag_y a = pass_y p then
        (let (a', ps') = pickup_loop (a\<lparr>has_passenger := 1\<rparr>) ps
         in (a', p\<lparr>in_taxi := 1\<rparr> # ps'))
      else
        (let (a', ps') = pickup_loop a ps in (a', p # ps')))"

definition agent_pickup :: "store \<Rightarrow> nat \<Rightarrow> store \<times> nat" where
  "agent_pickup h r =
     (let (h1, r1) = deepcopy h r;
          s1 = h1 ! r1
      in if has_passenger (agent_obj s1) = 0 then
           (let (a', ps') = pickup_loop (agent_obj s1) (passengers s1)
            in (h1[r1 := s1\<lparr>agent_obj := a', passengers := ps'\<rparr>], r1))
         else (h1, r1))"

text \<open>The loop of \<^verbatim>\<open>agent_dropoff\<close> over the passengers; it has no \<^verbatim>\<open>break\<close> either.\<close>

fun dropoff_loop :: "agent \<Rightarrow> passenger list \<Rightarrow> agent \<times> passenger list" where
  "dropoff_loop a [] = (a, [])"
| "dropoff_loop a (p # ps) =
     (if in_taxi p = 1 then
        (let (a', ps') = dropoff_loop (a\<lparr>has_passenger := 0\<rparr>) ps
         in (a', p\<lparr>in_taxi := 0\<rparr> # ps'))
      else
        (let (a', ps') = dropoff_loop a ps in (a', p # ps')))"

definition agent_dropoff :: "store \<Rightarrow> nat \<Rightarrow> store \<times> nat" where
  "agent_dropoff h r =
     (let (h1, r1) = deepcopy h r;
          s1 = h1 ! r1
      in if has_passenger (agent_obj s1) = 1 then
           (let (a', ps') = dropoff_loop (agent_obj s1) (passengers s1)
            in (h1[r1 := s1\<lparr>agent_obj := a', passengers := ps'\<rparr>], r1))
         else (h1, r1))"

definition agent_refuel :: "mdp \<Rightarrow> store \<Rightarrow> nat \<Rightarrow> store \<times> nat" where
  "agent_refuel m h r =
     (let (h1, r1) = deepcopy h r;
          s1 = h1 ! r1
      in case at_fuel_station m (get_agent_x (h1 ! r)) (get_agent_y (h1 ! r)) of
           Some cap \<Rightarrow> (h1[r1 := s1\<lparr>agent_obj := (agent_obj s1)\<lparr>fuel := Some cap\<rparr>\<rparr>], r1)
         | None \<Rightarrow> (h1, r1))"

section \<open>The transition function\<close>

text \<open>
  The two calls of \<^verbatim>\<open>random.random()\<close> are the arguments \<open>u1\<close> and \<open>u2\<close>; the second one
  is drawn only on a traffic cell. The draws are only compared with the probabilities,
  so reals stand for the floats.
\<close>

definition stuck_draw :: "mdp \<Rightarrow> taxi_state \<Rightarrow> real \<Rightarrow> real \<Rightarrow> bool" where
  "stuck_draw m s u1 u2 =
     (let stuck = (if slip_prob m > u1 then True else False)
      in case at_traffic m (get_agent_x s) (get_agent_y s) of
           Some p \<Rightarrow> (if p > u2 then True else stuck)
         | None \<Rightarrow> stuck)"

definition dispatch :: "mdp \<Rightarrow> bool \<Rightarrow> store \<Rightarrow> nat \<Rightarrow> string \<Rightarrow> store \<times> nat" where
  "dispatch m stuck h r action =
     (if action = ''up'' \<and> get_agent_y (h ! r) < height m \<and> \<not> stuck then
        move_agent m h r 0 1
      else if action = ''down'' \<and> get_agent_y (h ! r) > 1 \<and> \<not> stuck then
        move_agent m h r 0 (- 1)
      else if action = ''right'' \<and> get_agent_x (h ! r) < width m \<and> \<not> stuck then
        move_agent m h r 1 0
      else if action = ''left'' \<and> get_agent_x (h ! r) > 1 \<and> \<not> stuck then
        move_agent m h r (- 1) 0
      else if action = ''dropoff'' then agent_dropoff h r
      else if action = ''pickup'' then agent_pickup h r
      else if action = ''refuel'' then agent_refuel m h r
      else (h, r))"

text \<open>
  The part of the transition function after the dispatch: the removal of the hotswap
  station that the agent moved off of, and the marking of a goal state as terminal. The
  closing \<^verbatim>\<open>next_state.update()\<close> recomputes the views that the state class derives from
  its objects; the record has none.
\<close>

definition remove_hotswap :: "store \<Rightarrow> nat \<Rightarrow> nat \<Rightarrow> store" where
  "remove_hotswap h r r' =
     (case moved_off_of_hotswap_station (h ! r) (h ! r') of
        Some i \<Rightarrow>
          h[r' := (h ! r')\<lparr>hotswap_stations := del_index i (hotswap_stations (h ! r'))\<rparr>]
      | None \<Rightarrow> h)"

definition make_terminal :: "store \<Rightarrow> nat \<Rightarrow> store" where
  "make_terminal h r' =
     (if is_taxi_goal_state (h ! r') then
        h[r' := (h ! r')\<lparr>is_terminal := True, is_goal := True\<rparr>]
      else h)"

definition taxi_transition_func ::
  "mdp \<Rightarrow> real \<Rightarrow> real \<Rightarrow> store \<Rightarrow> nat \<Rightarrow> string \<Rightarrow> store \<times> (error + nat)" where
  "taxi_transition_func m u1 u2 h r action =
     (case error_check (h ! r) action of
        Some e \<Rightarrow> (h, Inl e)
      | None \<Rightarrow>
          if \<not> is_taxi_goal_state (h ! r) then
            (let stuck = stuck_draw m (h ! r) u1 u2;
                 h1 = (if track_fuel (h ! r) then h[r := decrement_fuel (fuel_step m) (h ! r)]
                       else h);
                 (h2, r') = dispatch m stuck h1 r action;
                 h3 = remove_hotswap h2 r r';
                 h4 = make_terminal h3 r'
             in (h4, Inr r'))
          else (h, Inr r))"

section \<open>The reward function\<close>

definition compute_reward_features :: "mdp \<Rightarrow> taxi_state \<Rightarrow> taxi_state \<Rightarrow> int list" where
  "compute_reward_features m s s' =
     (let toll_flag = (if length (tolls m) \<noteq> 0 \<and> moved_off_of_toll m s s' then 1 else 0);
          hotswap_flag =
            (if length (hotswap_stations s) \<noteq> 0 \<and> moved_off_of_hotswap_station s s' \<noteq> None
             then 1 else 0);
          step_cost_flag = 1
      in [toll_flag, hotswap_flag, step_cost_flag])"

text \<open>
  The product of the weight array, a row of reals, with the transposed 1-by-3 feature
  array. numpy raises \<^verbatim>\<open>ValueError\<close> when the row does not have as many entries as the
  feature array. The weights are floats in the source; reals stand for them, so the sum
  is exact where the source rounds.
\<close>

definition dot :: "real list \<Rightarrow> int list \<Rightarrow> error + real" where
  "dot ws fs =
     (if length ws = length fs then Inr (sum_list (map2 (\<lambda>w f. w * of_int f) ws fs))
      else Inl (ValueError ShapesNotAligned))"

definition taxi_reward_func ::
  "mdp \<Rightarrow> taxi_state \<Rightarrow> string \<Rightarrow> taxi_state \<Rightarrow> error + real" where
  "taxi_reward_func m s action s' =
     (case error_check s action of
        Some e \<Rightarrow> Inl e
      | None \<Rightarrow> dot (weights m) (compute_reward_features m s s'))"

section \<open>The two operations on any argument\<close>

text \<open>
  The caller passes a Python object as \<^verbatim>\<open>state\<close>: a state object of the store, or an
  object of another class. Both functions start with \<^verbatim>\<open>_error_check\<close>, which never
  passes for an object of another class, so the rest of their bodies runs on state
  objects only.
\<close>

datatype py_object = StateObject nat | OtherObject "bool option"

definition transition ::
  "mdp \<Rightarrow> real \<Rightarrow> real \<Rightarrow> store \<Rightarrow> py_object \<Rightarrow> string \<Rightarrow> store \<times> (error + nat)" where
  "transition m u1 u2 h obj action =
     (case obj of
        StateObject r \<Rightarrow> taxi_transition_func m u1 u2 h r action
      | OtherObject tf \<Rightarrow> (h, Inl (error_check_other tf action)))"

definition reward ::
  "mdp \<Rightarrow> store \<Rightarrow> py_object \<Rightarrow> string \<Rightarrow> taxi_state \<Rightarrow> error + real" where
  "reward m h obj action s' =
     (case obj of
        StateObject r \<Rightarrow> taxi_reward_func m (h ! r) action s'
      | OtherObject tf \<Rightarrow> Inl (error_check_other tf action))"

section \<open>Trajectories\<close>

text \<open>
  A trajectory is generated by calling the transition function again on the state it
  returned, each call with its own draws and action. An error ends the run.
\<close>

fun run :: "mdp \<Rightarrow> store \<Rightarrow> nat \<Rightarrow> (real \<times> real \<times> string) list \<Rightarrow> store \<times> (error + nat)" where
  "run m h r [] = (h, Inr r)"
| "run m h r ((u1, u2, action) # rest) =
     (case taxi_transition_func m u1 u2 h r action of
        (h', Inr r') \<Rightarrow> run m h' r' rest
      | (h', Inl e) \<Rightarrow> (h', Inl e))"

section \<open>The contents of the returned state\<close>

text \<open>
  What the action implementations write into the copy they return, as functions on the
  contents of a state. They are related to the implementations above by the lemmas
  \<open>agent_pickup_eq\<close>, \<open>agent_dropoff_eq\<close>, \<open>agent_refuel_eq\<close>, \<open>move_agent_eq\<close>,
  \<open>dispatch_eq\<close> and \<open>taxi_transition_func_eq\<close> below.
\<close>

definition colocated :: "agent \<Rightarrow> passenger \<Rightarrow> bool" where
  "colocated a p = (ag_x a = pass_x p \<and> ag_y a = pass_y p)"

definition pickup_effect :: "taxi_state \<Rightarrow> taxi_state" where
  "pickup_effect s =
     (if has_passenger (agent_obj s) = 0 then
        s\<lparr>agent_obj :=
            (if list_ex (colocated (agent_obj s)) (passengers s)
             then (agent_obj s)\<lparr>has_passenger := 1\<rparr> else agent_obj s),
          passengers :=
            map (\<lambda>p. if colocated (agent_obj s) p then p\<lparr>in_taxi := 1\<rparr> else p) (passengers s)\<rparr>
      else s)"

definition dropoff_effect :: "taxi_state \<Rightarrow> taxi_state" where
  "dropoff_effect s =
     (if has_passenger (agent_obj s) = 1 then
        s\<lparr>agent_obj :=
            (if list_ex (\<lambda>p. in_taxi p = 1) (passengers s)
             then (agent_obj s)\<lparr>has_passenger := 0\<rparr> else agent_obj s),
          passengers :=
            map (\<lambda>p. if in_taxi p = 1 then p\<lparr>in_taxi := 0\<rparr> else p) (passengers s)\<rparr>
      else s)"

definition refuel_effect :: "mdp \<Rightarrow> taxi_state \<Rightarrow> taxi_state" where
  "refuel_effect m s =
     (case at_fuel_station m (get_agent_x s) (get_agent_y s) of
        Some cap \<Rightarrow> s\<lparr>agent_obj := (agent_obj s)\<lparr>fuel := Some cap\<rparr>\<rparr>
      | None \<Rightarrow> s)"

definition move_effect :: "int \<Rightarrow> int \<Rightarrow> taxi_state \<Rightarrow> taxi_state" where
  "move_effect dx dy s =
     s\<lparr>agent_obj := (agent_obj s)\<lparr>ag_x := ag_x (agent_obj s) + dx, ag_y := ag_y (agent_obj s) + dy\<rparr>,
       passengers := map (move_pass dx dy) (passengers s)\<rparr>"

text \<open>
  The dispatch on a state with contents \<open>s\<close>: \<open>None\<close> when the state object itself is
  returned, \<open>Some s'\<close> when a new object with contents \<open>s'\<close> is.
\<close>

definition move_result :: "mdp \<Rightarrow> taxi_state \<Rightarrow> int \<Rightarrow> int \<Rightarrow> taxi_state option" where
  "move_result m s dx dy =
     (if is_wall_in_the_way m s dx dy then None else Some (move_effect dx dy s))"

definition dispatch_result :: "mdp \<Rightarrow> bool \<Rightarrow> taxi_state \<Rightarrow> string \<Rightarrow> taxi_state option" where
  "dispatch_result m stuck s action =
     (if action = ''up'' \<and> get_agent_y s < height m \<and> \<not> stuck then move_result m s 0 1
      else if action = ''down'' \<and> get_agent_y s > 1 \<and> \<not> stuck then move_result m s 0 (- 1)
      else if action = ''right'' \<and> get_agent_x s < width m \<and> \<not> stuck then move_result m s 1 0
      else if action = ''left'' \<and> get_agent_x s > 1 \<and> \<not> stuck then move_result m s (- 1) 0
      else if action = ''dropoff'' then Some (dropoff_effect s)
      else if action = ''pickup'' then Some (pickup_effect s)
      else if action = ''refuel'' then Some (refuel_effect m s)
      else None)"

definition fuel_effect :: "mdp \<Rightarrow> taxi_state \<Rightarrow> taxi_state" where
  "fuel_effect m s = (if track_fuel s then decrement_fuel (fuel_step m) s else s)"

definition post_effect :: "taxi_state \<Rightarrow> taxi_state \<Rightarrow> taxi_state" where
  "post_effect s s' =
     (let s1 = (case moved_off_of_hotswap_station s s' of
                  Some i \<Rightarrow> s'\<lparr>hotswap_stations := del_index i (hotswap_stations s')\<rparr>
                | None \<Rightarrow> s')
      in if is_taxi_goal_state s1 then s1\<lparr>is_terminal := True, is_goal := True\<rparr> else s1)"

definition next_contents :: "mdp \<Rightarrow> real \<Rightarrow> real \<Rightarrow> taxi_state \<Rightarrow> string \<Rightarrow> taxi_state" where
  "next_contents m u1 u2 s action =
     (if is_taxi_goal_state s then s
      else case dispatch_result m (stuck_draw m s u1 u2) (fuel_effect m s) action of
             None \<Rightarrow> fuel_effect m s
           | Some s' \<Rightarrow> post_effect (fuel_effect m s) s')"

section \<open>Properties of states\<close>

definition agent_pos :: "taxi_state \<Rightarrow> location" where
  "agent_pos s = \<lparr>loc_x = get_agent_x s, loc_y = get_agent_y s\<rparr>"

definition in_bounds :: "mdp \<Rightarrow> taxi_state \<Rightarrow> bool" where
  "in_bounds m s =
     (1 \<le> get_agent_x s \<and> get_agent_x s \<le> width m \<and> 1 \<le> get_agent_y s \<and> get_agent_y s \<le> height m)"

definition passenger_flag_ok :: "taxi_state \<Rightarrow> bool" where
  "passenger_flag_ok s =
     ((has_passenger (agent_obj s) = 1) = list_ex (\<lambda>p. in_taxi p = 1) (passengers s))"

definition terminal_is_goal :: "taxi_state \<Rightarrow> bool" where
  "terminal_is_goal s = (is_terminal s \<longrightarrow> is_taxi_goal_state s)"

text \<open>
  The stuck outcome in the words of the specification: the base slip draw, or the
  additional draw on a cell with a traffic entry.
\<close>

definition stuck_spec :: "mdp \<Rightarrow> taxi_state \<Rightarrow> real \<Rightarrow> real \<Rightarrow> bool" where
  "stuck_spec m s u1 u2 =
     (u1 < slip_prob m \<or>
      (case at_traffic m (get_agent_x s) (get_agent_y s) of Some p \<Rightarrow> u2 < p | None \<Rightarrow> False))"

text \<open>
  A navigation action is rejected when its destination lies outside the grid or a wall
  separates the destination from the agent's cell.
\<close>

definition nav_rejected :: "mdp \<Rightarrow> taxi_state \<Rightarrow> string \<Rightarrow> bool" where
  "nav_rejected m s action =
     (let cx = get_agent_x s; cy = get_agent_y s
      in (action = ''up'' \<and> (height m < cy + 1 \<or> wall_between m (cx, cy) (cx, cy + 1)))
       \<or> (action = ''down'' \<and> (cy - 1 < 1 \<or> wall_between m (cx, cy) (cx, cy - 1)))
       \<or> (action = ''right'' \<and> (width m < cx + 1 \<or> wall_between m (cx, cy) (cx + 1, cy)))
       \<or> (action = ''left'' \<and> (cx - 1 < 1 \<or> wall_between m (cx, cy) (cx - 1, cy))))"

text \<open>
  The two halves of the transition function around the dispatch: the fuel decrement on
  the state object that was passed in, and the removal of the hotswap station followed
  by the marking of the goal on the state object that the dispatch returned.
\<close>

definition fuel_store :: "mdp \<Rightarrow> store \<Rightarrow> nat \<Rightarrow> store" where
  "fuel_store m h r =
     (if track_fuel (h ! r) then h[r := decrement_fuel (fuel_step m) (h ! r)] else h)"

definition after_dispatch :: "nat \<Rightarrow> store \<times> nat \<Rightarrow> store \<times> (error + nat)" where
  "after_dispatch r d =
     (case d of (h2, r') \<Rightarrow> (make_terminal (remove_hotswap h2 r r') r', Inr r'))"

definition navigation :: "string set" where
  "navigation = {''up'', ''down'', ''left'', ''right''}"

definition same_but_fuel :: "taxi_state \<Rightarrow> taxi_state \<Rightarrow> bool" where
  "same_but_fuel s t = (t\<lparr>agent_obj := (agent_obj t)\<lparr>fuel := fuel (agent_obj s)\<rparr>\<rparr> = s)"

section \<open>Example configurations\<close>

definition no_walls :: "int \<times> int \<Rightarrow> int \<times> int \<Rightarrow> bool" where
  "no_walls a b = False"

text \<open>A 3-by-3 grid without walls, traffic or fuel stations, with a toll at (1, 1).\<close>

definition ex_mdp :: mdp where
  "ex_mdp = \<lparr>width = 3, height = 3, slip_prob = 0,
     tolls = [\<lparr>loc_x = 1, loc_y = 1\<rparr>], traffic_cells = [], fuel_stations = [],
     weights = [2, - 0.4, - 0.5], wall_between = no_walls, fuel_step = 1\<rparr>"

text \<open>The same grid with a traffic cell at (1, 1) and a fuel station at (1, 1).\<close>

definition ex_mdp_traffic :: mdp where
  "ex_mdp_traffic = ex_mdp\<lparr>slip_prob := 0.1,
     traffic_cells := [\<lparr>tr_x = 1, tr_y = 1, prob = 0.5\<rparr>],
     fuel_stations := [\<lparr>fs_x = 1, fs_y = 1, max_fuel_capacity = 12\<rparr>]\<rparr>"

definition ex_passenger :: passenger where
  "ex_passenger = \<lparr>pass_x = 1, pass_y = 1, dest_x = 3, dest_y = 3, in_taxi = 0\<rparr>"

text \<open>
  The agent at (1, 1) on a hotswap station, one passenger waiting there for (3, 3),
  no fuel tracking.
\<close>

definition ex_state :: taxi_state where
  "ex_state = \<lparr>agent_obj = \<lparr>ag_x = 1, ag_y = 1, has_passenger = 0, fuel = None\<rparr>,
     passengers = [ex_passenger],
     hotswap_stations = [\<lparr>loc_x = 2, loc_y = 2\<rparr>, \<lparr>loc_x = 1, loc_y = 1\<rparr>],
     is_terminal = False, is_goal = False\<rparr>"

text \<open>The same state with 5 units of fuel.\<close>

definition ex_state_fuel :: taxi_state where
  "ex_state_fuel = ex_state\<lparr>agent_obj := (agent_obj ex_state)\<lparr>fuel := Some 5\<rparr>\<rparr>"

text \<open>Two passengers waiting on the agent's cell.\<close>

definition ex_state_two :: taxi_state where
  "ex_state_two = ex_state\<lparr>passengers := [ex_passenger, ex_passenger\<lparr>dest_x := 2\<rparr>]\<rparr>"

text \<open>The terminal flag set by hand on a state whose passenger is not delivered.\<close>

definition ex_state_flagged :: taxi_state where
  "ex_state_flagged = ex_state\<lparr>is_terminal := True\<rparr>"

text \<open>An initial state whose passenger already is at its destination.\<close>

definition ex_state_delivered :: taxi_state where
  "ex_state_delivered = ex_state\<lparr>passengers := [ex_passenger\<lparr>dest_x := 1, dest_y := 1\<rparr>]\<rparr>"

text \<open>The same state with 5 units of fuel.\<close>

definition ex_state_delivered_fuel :: taxi_state where
  "ex_state_delivered_fuel =
     ex_state_delivered\<lparr>agent_obj := (agent_obj ex_state_delivered)\<lparr>fuel := Some 5\<rparr>\<rparr>"

text \<open>The agent's flag says that it has a passenger, and no passenger is in the taxi.\<close>

definition ex_state_flag_only :: taxi_state where
  "ex_state_flag_only = ex_state\<lparr>agent_obj := (agent_obj ex_state)\<lparr>has_passenger := 1\<rparr>\<rparr>"

text \<open>The passenger in the taxi.\<close>

definition ex_state_riding :: taxi_state where
  "ex_state_riding = ex_state\<lparr>agent_obj := (agent_obj ex_state)\<lparr>has_passenger := 1\<rparr>,
     passengers := [ex_passenger\<lparr>in_taxi := 1\<rparr>]\<rparr>"

text \<open>The agent at (3, 3) with the passenger in the taxi, at the passenger's destination.\<close>

definition ex_state_arrived :: taxi_state where
  "ex_state_arrived = ex_state\<lparr>
     agent_obj := (agent_obj ex_state)\<lparr>ag_x := 3, ag_y := 3, has_passenger := 1\<rparr>,
     passengers := [ex_passenger\<lparr>pass_x := 3, pass_y := 3, in_taxi := 1\<rparr>]\<rparr>"

text \<open>The state that the dropoff at the destination leads to.\<close>

definition ex_state_done :: taxi_state where
  "ex_state_done = ex_state\<lparr>
     agent_obj := (agent_obj ex_state)\<lparr>ag_x := 3, ag_y := 3\<rparr>,
     passengers := [ex_passenger\<lparr>pass_x := 3, pass_y := 3\<rparr>],
     is_terminal := True, is_goal := True\<rparr>"

section \<open>The implementations and their effects\<close>

lemma pickup_loop_snd:
  "snd (pickup_loop a ps) = map (\<lambda>p. if colocated a p then p\<lparr>in_taxi := 1\<rparr> else p) ps"
  by (induction ps arbitrary: a) (simp_all add: colocated_def case_prod_unfold)

lemma pickup_loop_fst:
  "fst (pickup_loop a ps) = (if list_ex (colocated a) ps then a\<lparr>has_passenger := 1\<rparr> else a)"
  by (induction ps arbitrary: a) (simp_all add: colocated_def case_prod_unfold)

lemma dropoff_loop_snd:
  "snd (dropoff_loop a ps) = map (\<lambda>p. if in_taxi p = 1 then p\<lparr>in_taxi := 0\<rparr> else p) ps"
  by (induction ps arbitrary: a) (simp_all add: case_prod_unfold)

lemma dropoff_loop_fst:
  "fst (dropoff_loop a ps) = (if list_ex (\<lambda>p. in_taxi p = 1) ps then a\<lparr>has_passenger := 0\<rparr> else a)"
  by (induction ps arbitrary: a) (simp_all add: case_prod_unfold)

lemma agent_pickup_eq:
  "r < length h \<Longrightarrow> agent_pickup h r = (h @ [pickup_effect (h ! r)], length h)"
  using pickup_loop_fst [of "agent_obj (h ! r)" "passengers (h ! r)"]
        pickup_loop_snd [of "agent_obj (h ! r)" "passengers (h ! r)"]
  by (simp add: agent_pickup_def deepcopy_def pickup_effect_def nth_append case_prod_unfold Let_def)

lemma agent_dropoff_eq:
  "r < length h \<Longrightarrow> agent_dropoff h r = (h @ [dropoff_effect (h ! r)], length h)"
  using dropoff_loop_fst [of "agent_obj (h ! r)" "passengers (h ! r)"]
        dropoff_loop_snd [of "agent_obj (h ! r)" "passengers (h ! r)"]
  by (simp add: agent_dropoff_def deepcopy_def dropoff_effect_def nth_append case_prod_unfold Let_def)

lemma agent_refuel_eq:
  "r < length h \<Longrightarrow> agent_refuel m h r = (h @ [refuel_effect m (h ! r)], length h)"
  by (simp add: agent_refuel_def deepcopy_def refuel_effect_def nth_append Let_def split: option.splits)

lemma move_agent_eq:
  "r < length h \<Longrightarrow>
   move_agent m h r dx dy =
     (case move_result m (h ! r) dx dy of None \<Rightarrow> (h, r) | Some s' \<Rightarrow> (h @ [s'], length h))"
  by (simp add: move_agent_def move_result_def deepcopy_def move_effect_def move_pass_in_taxi_def nth_append Let_def)

lemma dispatch_eq:
  "r < length h \<Longrightarrow>
   dispatch m stuck h r action =
     (case dispatch_result m stuck (h ! r) action of
        None \<Rightarrow> (h, r) | Some s' \<Rightarrow> (h @ [s'], length h))"
  by (simp add: dispatch_def dispatch_result_def move_agent_eq agent_pickup_eq
        agent_dropoff_eq agent_refuel_eq)

section \<open>The transition function on the contents of states\<close>

lemma first_index_None: "(\<And>a. a \<in> set xs \<Longrightarrow> \<not> P a) \<Longrightarrow> first_index P xs = None"
  by (induction xs) simp_all

lemma moved_off_same: "moved_off_of_hotswap_station s s = None"
  by (simp add: moved_off_of_hotswap_station_def first_index_None)

lemma goal_fuel_effect: "is_taxi_goal_state (fuel_effect m s) = is_taxi_goal_state s"
  by (simp add: fuel_effect_def decrement_fuel_def is_taxi_goal_state_def)

lemma fuel_update_eq:
  "r < length h \<Longrightarrow>
   (if track_fuel (h ! r) then h[r := decrement_fuel (fuel_step m) (h ! r)] else h) =
   h[r := fuel_effect m (h ! r)]"
  by (simp add: fuel_effect_def)

lemma remove_make_same:
  "r < length h \<Longrightarrow> \<not> is_taxi_goal_state (h ! r) \<Longrightarrow>
   make_terminal (remove_hotswap h r r) r = h"
  by (simp add: remove_hotswap_def make_terminal_def moved_off_same)

lemma remove_make_fresh:
  "r < length h \<Longrightarrow>
   make_terminal (remove_hotswap (h @ [s']) r (length h)) (length h) =
   h @ [post_effect (h ! r) s']"
  by (simp add: remove_hotswap_def make_terminal_def post_effect_def nth_append Let_def
        split: option.splits)

lemma taxi_transition_func_eq:
  assumes "r < length h" and "error_check (h ! r) action = None"
    and "\<not> is_taxi_goal_state (h ! r)"
  shows "taxi_transition_func m u1 u2 h r action =
     (case dispatch_result m (stuck_draw m (h ! r) u1 u2) (fuel_effect m (h ! r)) action of
        None \<Rightarrow> (h[r := fuel_effect m (h ! r)], Inr r)
      | Some s' \<Rightarrow>
          (h[r := fuel_effect m (h ! r)] @ [post_effect (fuel_effect m (h ! r)) s'],
           Inr (length h)))"
proof -
  let ?h1 = "h[r := fuel_effect m (h ! r)]"
  have r1: "r < length ?h1" and n1: "?h1 ! r = fuel_effect m (h ! r)"
    using assms(1) by simp_all
  have ng: "\<not> is_taxi_goal_state (?h1 ! r)"
    using assms(3) n1 by (simp add: goal_fuel_effect)
  show ?thesis
  proof (cases "dispatch_result m (stuck_draw m (h ! r) u1 u2) (fuel_effect m (h ! r)) action")
    case None
    then have "dispatch m (stuck_draw m (h ! r) u1 u2) ?h1 r action = (?h1, r)"
      using dispatch_eq [OF r1, of m "stuck_draw m (h ! r) u1 u2" action] n1 by simp
    then show ?thesis
      using assms None remove_make_same [OF r1 ng]
      by (simp add: taxi_transition_func_def fuel_update_eq)
  next
    case (Some s')
    then have "dispatch m (stuck_draw m (h ! r) u1 u2) ?h1 r action = (?h1 @ [s'], length ?h1)"
      using dispatch_eq [OF r1, of m "stuck_draw m (h ! r) u1 u2" action] n1 by simp
    then show ?thesis
      using assms Some remove_make_fresh [OF r1, of s'] n1
      by (simp add: taxi_transition_func_def fuel_update_eq)
  qed
qed

lemma taxi_transition_func_goal:
  "error_check (h ! r) action = None \<Longrightarrow> is_taxi_goal_state (h ! r) \<Longrightarrow>
   taxi_transition_func m u1 u2 h r action = (h, Inr r)"
  by (simp add: taxi_transition_func_def)

lemma taxi_transition_func_error:
  "error_check (h ! r) action = Some e \<Longrightarrow>
   taxi_transition_func m u1 u2 h r action = (h, Inl e)"
  by (simp add: taxi_transition_func_def)

lemma transition_contents:
  assumes "r < length h" and "taxi_transition_func m u1 u2 h r action = (h', Inr r')"
  shows "r' < length h' \<and> h' ! r' = next_contents m u1 u2 (h ! r) action"
proof (cases "error_check (h ! r) action")
  case (Some e)
  then show ?thesis using assms taxi_transition_func_error [OF Some, of m u1 u2] by simp
next
  case None
  show ?thesis
  proof (cases "is_taxi_goal_state (h ! r)")
    case True
    then show ?thesis
      using assms taxi_transition_func_goal [OF None True, of m u1 u2]
      by (simp add: next_contents_def)
  next
    case False
    then show ?thesis
      using assms taxi_transition_func_eq [OF assms(1) None False, of m u1 u2]
      by (auto simp: next_contents_def nth_append split: option.splits)
  qed
qed

lemma run_invariant:
  assumes step: "\<And>u1 u2 s action. P s \<Longrightarrow> P (next_contents m u1 u2 s action)"
  shows "r < length h \<Longrightarrow> P (h ! r) \<Longrightarrow> run m h r steps = (h', Inr r') \<Longrightarrow>
         r' < length h' \<and> P (h' ! r')"
proof (induction steps arbitrary: h r)
  case Nil
  then show ?case by simp
next
  case (Cons st steps)
  obtain u1 u2 action where st: "st = (u1, u2, action)" by (cases st) auto
  obtain h1 res where t: "taxi_transition_func m u1 u2 h r action = (h1, res)"
    by (cases "taxi_transition_func m u1 u2 h r action") auto
  show ?case
  proof (cases res)
    case (Inl e)
    then show ?thesis using Cons.prems st t by simp
  next
    case (Inr r1)
    have c: "r1 < length h1 \<and> h1 ! r1 = next_contents m u1 u2 (h ! r) action"
      using transition_contents [OF Cons.prems(1)] t Inr by simp
    then have "P (h1 ! r1)" using step Cons.prems(2) by simp
    moreover have "run m h1 r1 steps = (h', Inr r')"
      using Cons.prems(3) st t Inr by simp
    ultimately show ?thesis using Cons.IH c by blast
  qed
qed

subsection \<open>What each effect keeps\<close>

lemma fuel_effect_simps:
  "passengers (fuel_effect m s) = passengers s"
  "hotswap_stations (fuel_effect m s) = hotswap_stations s"
  "is_terminal (fuel_effect m s) = is_terminal s"
  "is_goal (fuel_effect m s) = is_goal s"
  "get_agent_x (fuel_effect m s) = get_agent_x s"
  "get_agent_y (fuel_effect m s) = get_agent_y s"
  "has_passenger (agent_obj (fuel_effect m s)) = has_passenger (agent_obj s)"
  by (simp_all add: fuel_effect_def decrement_fuel_def get_agent_x_def get_agent_y_def)

lemma post_effect_simps:
  "agent_obj (post_effect s s') = agent_obj s'"
  "passengers (post_effect s s') = passengers s'"
  "get_agent_x (post_effect s s') = get_agent_x s'"
  "get_agent_y (post_effect s s') = get_agent_y s'"
  by (simp_all add: post_effect_def Let_def get_agent_x_def get_agent_y_def split: option.splits)

lemma post_effect_hotswap:
  "hotswap_stations (post_effect s s') =
     (case moved_off_of_hotswap_station s s' of
        Some i \<Rightarrow> del_index i (hotswap_stations s') | None \<Rightarrow> hotswap_stations s')"
  by (simp add: post_effect_def Let_def split: option.splits)

lemma post_effect_goal:
  "is_taxi_goal_state (post_effect s s') = is_taxi_goal_state s'"
  by (simp add: is_taxi_goal_state_def post_effect_simps)

lemma post_effect_flags:
  "is_terminal (post_effect s s') = (is_taxi_goal_state s' \<or> is_terminal s')"
  "is_goal (post_effect s s') = (is_taxi_goal_state s' \<or> is_goal s')"
  by (simp_all add: post_effect_def Let_def is_taxi_goal_state_def split: option.splits)

lemma chain7:
  "(if A then a else if B then b else if C then c else if D then d
    else if E then e else if F then f else if G then g else None) = Some s' \<Longrightarrow>
   (A \<and> a = Some s') \<or> (B \<and> b = Some s') \<or> (C \<and> c = Some s') \<or> (D \<and> d = Some s')
   \<or> (E \<and> e = Some s') \<or> (F \<and> f = Some s') \<or> (G \<and> g = Some s')"
  by (simp split: if_splits)

lemma move_result_Some:
  "move_result m s dx dy = Some s' \<Longrightarrow> \<not> is_wall_in_the_way m s dx dy \<and> s' = move_effect dx dy s"
  by (simp add: move_result_def split: if_splits)

lemma dispatch_result_cases:
  assumes "dispatch_result m stuck s action = Some s'"
  shows "(action = ''up'' \<and> get_agent_y s < height m \<and> \<not> stuck \<and> \<not> is_wall_in_the_way m s 0 1
            \<and> s' = move_effect 0 1 s)
       \<or> (action = ''down'' \<and> 1 < get_agent_y s \<and> \<not> stuck \<and> \<not> is_wall_in_the_way m s 0 (- 1)
            \<and> s' = move_effect 0 (- 1) s)
       \<or> (action = ''right'' \<and> get_agent_x s < width m \<and> \<not> stuck \<and> \<not> is_wall_in_the_way m s 1 0
            \<and> s' = move_effect 1 0 s)
       \<or> (action = ''left'' \<and> 1 < get_agent_x s \<and> \<not> stuck \<and> \<not> is_wall_in_the_way m s (- 1) 0
            \<and> s' = move_effect (- 1) 0 s)
       \<or> (action = ''dropoff'' \<and> s' = dropoff_effect s)
       \<or> (action = ''pickup'' \<and> s' = pickup_effect s)
       \<or> (action = ''refuel'' \<and> s' = refuel_effect m s)"
  using chain7 [OF assms [unfolded dispatch_result_def]]
  by (elim disjE conjE) (auto dest: move_result_Some)

lemma effect_hotswap:
  "hotswap_stations (move_effect dx dy s) = hotswap_stations s"
  "hotswap_stations (pickup_effect s) = hotswap_stations s"
  "hotswap_stations (dropoff_effect s) = hotswap_stations s"
  "hotswap_stations (refuel_effect m s) = hotswap_stations s"
  by (simp_all add: move_effect_def pickup_effect_def dropoff_effect_def refuel_effect_def
        split: option.splits)

lemma effect_flags:
  "is_terminal (move_effect dx dy s) = is_terminal s"
  "is_terminal (pickup_effect s) = is_terminal s"
  "is_terminal (dropoff_effect s) = is_terminal s"
  "is_terminal (refuel_effect m s) = is_terminal s"
  "is_goal (move_effect dx dy s) = is_goal s"
  "is_goal (pickup_effect s) = is_goal s"
  "is_goal (dropoff_effect s) = is_goal s"
  "is_goal (refuel_effect m s) = is_goal s"
  by (simp_all add: move_effect_def pickup_effect_def dropoff_effect_def refuel_effect_def
        split: option.splits)

lemma effect_pos:
  "get_agent_x (move_effect dx dy s) = get_agent_x s + dx"
  "get_agent_y (move_effect dx dy s) = get_agent_y s + dy"
  "get_agent_x (pickup_effect s) = get_agent_x s"
  "get_agent_y (pickup_effect s) = get_agent_y s"
  "get_agent_x (dropoff_effect s) = get_agent_x s"
  "get_agent_y (dropoff_effect s) = get_agent_y s"
  "get_agent_x (refuel_effect m s) = get_agent_x s"
  "get_agent_y (refuel_effect m s) = get_agent_y s"
  by (simp_all add: move_effect_def pickup_effect_def dropoff_effect_def refuel_effect_def
        get_agent_x_def get_agent_y_def split: option.splits)

lemma dispatch_result_hotswap:
  assumes "dispatch_result m stuck s action = Some s'"
  shows "hotswap_stations s' = hotswap_stations s"
  using dispatch_result_cases [OF assms]
  by (elim disjE conjE) (simp_all add: effect_hotswap)

lemma dispatch_result_flags:
  assumes "dispatch_result m stuck s action = Some s'"
  shows "is_terminal s' = is_terminal s \<and> is_goal s' = is_goal s"
  using dispatch_result_cases [OF assms]
  by (elim disjE conjE) (simp_all add: effect_flags)

subsection \<open>The bounds of the grid\<close>

lemma dispatch_result_in_bounds:
  assumes "dispatch_result m stuck s action = Some s'" and "in_bounds m s"
  shows "in_bounds m s'"
  using dispatch_result_cases [OF assms(1)] assms(2)
  by (elim disjE conjE) (simp_all add: in_bounds_def effect_pos)

lemma next_contents_in_bounds:
  "in_bounds m s \<Longrightarrow> in_bounds m (next_contents m u1 u2 s action)"
proof -
  assume b: "in_bounds m s"
  then have b0: "in_bounds m (fuel_effect m s)"
    by (simp add: in_bounds_def fuel_effect_simps)
  show ?thesis
  proof (cases "dispatch_result m (stuck_draw m s u1 u2) (fuel_effect m s) action")
    case None
    then show ?thesis using b b0 by (simp add: next_contents_def)
  next
    case (Some s')
    then have "in_bounds m s'" using b0 dispatch_result_in_bounds by blast
    then have "in_bounds m (post_effect (fuel_effect m s) s')"
      by (simp add: in_bounds_def post_effect_simps)
    then show ?thesis using b Some by (simp add: next_contents_def)
  qed
qed

lemma nav_rejected_dispatch:
  assumes "nav_rejected m s action"
  shows "dispatch_result m stuck (fuel_effect m s) action = None"
  using assms unfolding nav_rejected_def Let_def
  by (elim disjE conjE)
     (simp_all add: dispatch_result_def move_result_def is_wall_in_the_way_def fuel_effect_simps)

lemma nav_rejected_pos:
  assumes "nav_rejected m s action"
  shows "agent_pos (next_contents m u1 u2 s action) = agent_pos s"
  using nav_rejected_dispatch [OF assms]
  by (simp add: next_contents_def agent_pos_def fuel_effect_simps)

subsection \<open>Hotswap stations\<close>

lemma agent_at_iff: "agent_at s l \<longleftrightarrow> l = agent_pos s"
  by (cases l) (auto simp: agent_at_def agent_pos_def)

lemma first_index_cong:
  "(\<And>a. a \<in> set xs \<Longrightarrow> P a = Q a) \<Longrightarrow> first_index P xs = first_index Q xs"
  by (induction xs) simp_all

lemma first_index_remove1:
  "(case first_index (\<lambda>l. l = k) xs of Some i \<Rightarrow> del_index i xs | None \<Rightarrow> xs) = remove1 k xs"
  by (induction xs) (auto simp: del_index_def split: option.splits)

lemma agent_pos_simps:
  "agent_pos (fuel_effect m s) = agent_pos s"
  "agent_pos (post_effect s s') = agent_pos s'"
  by (simp_all add: agent_pos_def fuel_effect_simps post_effect_simps)

lemma post_effect_remove1:
  assumes "hotswap_stations s' = hotswap_stations s"
  shows "hotswap_stations (post_effect s s') =
     (if agent_pos s' \<noteq> agent_pos s
      then remove1 (agent_pos s) (hotswap_stations s) else hotswap_stations s)"
proof (cases "agent_pos s' = agent_pos s")
  case True
  then have "moved_off_of_hotswap_station s s' = None"
    by (simp add: moved_off_of_hotswap_station_def agent_at_iff first_index_None)
  then show ?thesis using True assms by (simp add: post_effect_hotswap)
next
  case False
  then have "moved_off_of_hotswap_station s s' =
      first_index (\<lambda>l. l = agent_pos s) (hotswap_stations s)"
    unfolding moved_off_of_hotswap_station_def
    by (intro first_index_cong) (auto simp: agent_at_iff)
  then show ?thesis
    using False first_index_remove1 [where k = "agent_pos s" and xs = "hotswap_stations s"]
    unfolding post_effect_hotswap assms by simp
qed

lemma next_contents_hotswap:
  "hotswap_stations (next_contents m u1 u2 s action) =
     (if agent_pos (next_contents m u1 u2 s action) \<noteq> agent_pos s
      then remove1 (agent_pos s) (hotswap_stations s) else hotswap_stations s)"
proof (cases "is_taxi_goal_state s")
  case True
  then show ?thesis by (simp add: next_contents_def)
next
  case False
  show ?thesis
  proof (cases "dispatch_result m (stuck_draw m s u1 u2) (fuel_effect m s) action")
    case None
    then show ?thesis using False
      by (simp add: next_contents_def agent_pos_simps fuel_effect_simps)
  next
    case (Some s')
    have hs: "hotswap_stations s' = hotswap_stations s"
      using dispatch_result_hotswap [OF Some] by (simp add: fuel_effect_simps)
    have "next_contents m u1 u2 s action = post_effect (fuel_effect m s) s'"
      using False Some by (simp add: next_contents_def)
    moreover have "hotswap_stations s' = hotswap_stations (fuel_effect m s)"
      using hs by (simp add: fuel_effect_simps)
    ultimately show ?thesis
      using post_effect_remove1 [of s' "fuel_effect m s"]
      by (simp add: agent_pos_simps fuel_effect_simps)
  qed
qed

lemma next_contents_hotswap_length:
  "length (hotswap_stations (next_contents m u1 u2 s action)) \<le> length (hotswap_stations s)"
  by (simp add: next_contents_hotswap length_remove1)

subsection \<open>The passenger flag\<close>

lemma in_taxi_move_pass: "in_taxi (move_pass dx dy p) = in_taxi p"
  by (simp add: move_pass_def)

lemma flag_ok_move: "passenger_flag_ok s \<Longrightarrow> passenger_flag_ok (move_effect dx dy s)"
  by (simp add: passenger_flag_ok_def move_effect_def list_ex_iff in_taxi_move_pass)

lemma pickup_map_in_taxi:
  "list_ex (\<lambda>p. in_taxi p = 1) (map (\<lambda>p. if c p then p\<lparr>in_taxi := 1\<rparr> else p) ps) =
     (list_ex c ps \<or> list_ex (\<lambda>p. in_taxi p = 1) ps)"
  by (induction ps) auto

lemma dropoff_map_in_taxi:
  "\<not> list_ex (\<lambda>p. in_taxi p = 1) (map (\<lambda>p. if in_taxi p = 1 then p\<lparr>in_taxi := 0\<rparr> else p) ps)"
  by (induction ps) auto

lemma flag_ok_pickup:
  assumes "passenger_flag_ok s"
  shows "passenger_flag_ok (pickup_effect s)"
proof (cases "has_passenger (agent_obj s) = 0")
  case True
  then have "\<not> list_ex (\<lambda>p. in_taxi p = 1) (passengers s)"
    using assms by (simp add: passenger_flag_ok_def)
  then show ?thesis using True
    by (simp add: passenger_flag_ok_def pickup_effect_def pickup_map_in_taxi)
next
  case False
  then show ?thesis using assms by (simp add: pickup_effect_def)
qed

lemma flag_ok_dropoff:
  assumes "passenger_flag_ok s"
  shows "passenger_flag_ok (dropoff_effect s)"
proof (cases "has_passenger (agent_obj s) = 1")
  case True
  then have "list_ex (\<lambda>p. in_taxi p = 1) (passengers s)"
    using assms by (simp add: passenger_flag_ok_def)
  then show ?thesis using True
    by (simp add: passenger_flag_ok_def dropoff_effect_def dropoff_map_in_taxi)
next
  case False
  then show ?thesis using assms by (simp add: dropoff_effect_def)
qed

lemma flag_ok_refuel: "passenger_flag_ok s \<Longrightarrow> passenger_flag_ok (refuel_effect m s)"
  by (simp add: passenger_flag_ok_def refuel_effect_def split: option.splits)

lemma flag_ok_fuel: "passenger_flag_ok (fuel_effect m s) = passenger_flag_ok s"
  by (simp add: passenger_flag_ok_def fuel_effect_simps)

lemma flag_ok_post: "passenger_flag_ok (post_effect s s') = passenger_flag_ok s'"
  by (simp add: passenger_flag_ok_def post_effect_simps)

lemma flag_ok_dispatch:
  assumes "dispatch_result m stuck s action = Some s'" and "passenger_flag_ok s"
  shows "passenger_flag_ok s'"
  using dispatch_result_cases [OF assms(1)] assms(2)
  by (elim disjE conjE) (simp_all add: flag_ok_move flag_ok_pickup flag_ok_dropoff flag_ok_refuel)

lemma next_contents_flag_ok:
  assumes "passenger_flag_ok s"
  shows "passenger_flag_ok (next_contents m u1 u2 s action)"
proof (cases "dispatch_result m (stuck_draw m s u1 u2) (fuel_effect m s) action")
  case None
  then show ?thesis using assms by (simp add: next_contents_def flag_ok_fuel)
next
  case (Some s')
  then have "passenger_flag_ok s'" using flag_ok_dispatch assms flag_ok_fuel by blast
  then show ?thesis using assms Some by (simp add: next_contents_def flag_ok_post)
qed

subsection \<open>The terminal and goal flags\<close>

lemma next_contents_terminal:
  assumes "\<not> is_taxi_goal_state s" and "\<not> is_terminal s"
  shows "is_terminal (next_contents m u1 u2 s action)
       = is_taxi_goal_state (next_contents m u1 u2 s action)"
proof (cases "dispatch_result m (stuck_draw m s u1 u2) (fuel_effect m s) action")
  case None
  then show ?thesis using assms by (simp add: next_contents_def fuel_effect_simps goal_fuel_effect)
next
  case (Some s')
  have "\<not> is_terminal s'"
    using dispatch_result_flags [OF Some] assms(2) by (simp add: fuel_effect_simps)
  then show ?thesis using assms Some
    by (simp add: next_contents_def post_effect_flags post_effect_goal)
qed

lemma next_contents_goal_flag:
  assumes "\<not> is_taxi_goal_state s"
    and "is_taxi_goal_state (next_contents m u1 u2 s action)"
  shows "is_goal (next_contents m u1 u2 s action)"
proof (cases "dispatch_result m (stuck_draw m s u1 u2) (fuel_effect m s) action")
  case None
  then show ?thesis using assms by (simp add: next_contents_def goal_fuel_effect)
next
  case (Some s')
  then show ?thesis using assms
    by (simp add: next_contents_def post_effect_flags post_effect_goal)
qed

lemma next_contents_terminal_is_goal:
  assumes "terminal_is_goal s"
  shows "terminal_is_goal (next_contents m u1 u2 s action)"
proof (cases "is_taxi_goal_state s")
  case True
  then show ?thesis using assms by (simp add: next_contents_def)
next
  case False
  then have "\<not> is_terminal s" using assms by (auto simp: terminal_is_goal_def)
  then show ?thesis using next_contents_terminal [OF False, of m u1 u2 action]
    by (simp add: terminal_is_goal_def)
qed

lemma transition_valid_returns:
  assumes "r < length h" and "error_check (h ! r) action = None"
  shows "\<exists>h1 r1. taxi_transition_func m u1 u2 h r action = (h1, Inr r1)"
proof (cases "is_taxi_goal_state (h ! r)")
  case True
  then show ?thesis using taxi_transition_func_goal [OF assms(2) True] by blast
next
  case False
  show ?thesis
    using taxi_transition_func_eq [OF assms False, of m u1 u2]
    by (cases "dispatch_result m (stuck_draw m (h ! r) u1 u2) (fuel_effect m (h ! r)) action")
       simp_all
qed

subsection \<open>The dispatch, action by action\<close>

lemma stuck_draw_eq: "stuck_draw m s u1 u2 = stuck_spec m s u1 u2"
  by (simp add: stuck_draw_def stuck_spec_def split: option.splits)

lemma fuel_store_eq: "r < length h \<Longrightarrow> fuel_store m h r = h[r := fuel_effect m (h ! r)]"
  by (simp add: fuel_store_def fuel_effect_def)

lemma transition_dispatch:
  assumes "error_check (h ! r) action = None" and "\<not> is_taxi_goal_state (h ! r)"
  shows "taxi_transition_func m u1 u2 h r action =
     after_dispatch r (dispatch m (stuck_draw m (h ! r) u1 u2) (fuel_store m h r) r action)"
  using assms by (simp add: taxi_transition_func_def after_dispatch_def fuel_store_def)

lemma dispatch_pickup: "dispatch m stuck h r ''pickup'' = agent_pickup h r"
  by (simp add: dispatch_def)

lemma dispatch_dropoff: "dispatch m stuck h r ''dropoff'' = agent_dropoff h r"
  by (simp add: dispatch_def)

lemma dispatch_refuel: "dispatch m stuck h r ''refuel'' = agent_refuel m h r"
  by (simp add: dispatch_def)

lemma dispatch_stuck:
  assumes "action \<in> navigation"
  shows "dispatch m True h r action = (h, r)"
  using assms unfolding navigation_def
  by (elim insertE emptyE) (simp_all add: dispatch_def)

lemma dispatch_free:
  "get_agent_y (h ! r) < height m \<Longrightarrow> dispatch m False h r ''up'' = move_agent m h r 0 1"
  "1 < get_agent_y (h ! r) \<Longrightarrow> dispatch m False h r ''down'' = move_agent m h r 0 (- 1)"
  "get_agent_x (h ! r) < width m \<Longrightarrow> dispatch m False h r ''right'' = move_agent m h r 1 0"
  "1 < get_agent_x (h ! r) \<Longrightarrow> dispatch m False h r ''left'' = move_agent m h r (- 1) 0"
  by (simp_all add: dispatch_def)

lemma fuel_store_pos:
  assumes "r < length h"
  shows "get_agent_x (fuel_store m h r ! r) = get_agent_x (h ! r)"
    and "get_agent_y (fuel_store m h r ! r) = get_agent_y (h ! r)"
  using assms by (simp_all add: fuel_store_eq fuel_effect_simps)

lemma transition_stuck:
  assumes "r < length h" and "error_check (h ! r) action = None"
    and "\<not> is_taxi_goal_state (h ! r)" and "action \<in> navigation"
    and "stuck_spec m (h ! r) u1 u2"
  shows "taxi_transition_func m u1 u2 h r action = (fuel_store m h r, Inr r)"
proof -
  let ?h0 = "fuel_store m h r"
  have r0: "r < length ?h0" using assms(1) by (simp add: fuel_store_eq)
  have g0: "\<not> is_taxi_goal_state (?h0 ! r)"
    using assms(1,3) by (simp add: fuel_store_eq goal_fuel_effect)
  have "taxi_transition_func m u1 u2 h r action = after_dispatch r (?h0, r)"
    using transition_dispatch [OF assms(2,3), of m u1 u2] assms(5) dispatch_stuck [OF assms(4)]
    by (simp add: stuck_draw_eq)
  then show ?thesis using remove_make_same [OF r0 g0] by (simp add: after_dispatch_def)
qed

subsection \<open>Which state object is returned\<close>

lemma error_check_valid:
  assumes "error_check s action = None"
  shows "action \<in> navigation \<or> action = ''pickup'' \<or> action = ''dropoff'' \<or> action = ''refuel''"
proof (cases "track_fuel s")
  case True
  then have "action \<in> set AUGMENTED_ACTIONS"
    using assms by (simp add: error_check_def split: if_splits)
  then show ?thesis by (auto simp: AUGMENTED_ACTIONS_def navigation_def)
next
  case False
  then have "action \<in> set BASE_ACTIONS"
    using assms by (simp add: error_check_def split: if_splits)
  then show ?thesis by (auto simp: BASE_ACTIONS_def navigation_def)
qed

lemma dispatch_result_nav:
  assumes "action \<in> navigation"
  shows "(dispatch_result m stuck (fuel_effect m s) action = None)
       = (stuck \<or> nav_rejected m s action)"
  using assms unfolding navigation_def
  by (elim insertE emptyE)
     (auto simp: dispatch_result_def move_result_def nav_rejected_def is_wall_in_the_way_def
        fuel_effect_simps Let_def)

lemma dispatch_result_other:
  assumes "action = ''pickup'' \<or> action = ''dropoff'' \<or> action = ''refuel''"
  shows "dispatch_result m stuck s action \<noteq> None"
  using assms by (elim disjE) (simp_all add: dispatch_result_def)

lemma nav_not_other:
  assumes "action = ''pickup'' \<or> action = ''dropoff'' \<or> action = ''refuel''"
  shows "action \<notin> navigation"
  using assms by (elim disjE) (simp_all add: navigation_def)

lemma same_but_fuel_effect: "same_but_fuel s (fuel_effect m s)"
  by (simp add: same_but_fuel_def fuel_effect_def decrement_fuel_def)

subsection \<open>Validation and reward\<close>

lemma first_index_Some_iff: "(first_index P xs \<noteq> None) = (\<exists>a\<in>set xs. P a)"
  by (induction xs) auto








section \<open>Evaluation of the examples\<close>

lemmas eval_defs =
  ex_mdp_def ex_mdp_traffic_def ex_state_def ex_passenger_def ex_state_fuel_def
  ex_state_two_def ex_state_flagged_def ex_state_delivered_def ex_state_flag_only_def
  ex_state_riding_def ex_state_arrived_def ex_state_done_def ex_state_delivered_fuel_def
  no_walls_def
  taxi_transition_func_def error_check_def track_fuel_def decrement_fuel_def
  BASE_ACTIONS_def AUGMENTED_ACTIONS_def is_taxi_goal_state_def passenger_delivered_def
  stuck_draw_def at_traffic_def at_fuel_station_def get_agent_x_def get_agent_y_def
  dispatch_def move_agent_def agent_pickup_def agent_dropoff_def agent_refuel_def
  is_wall_in_the_way_def deepcopy_def move_pass_in_taxi_def move_pass_def
  remove_hotswap_def moved_off_of_hotswap_station_def moved_off_of_toll_def agent_at_def
  del_index_def make_terminal_def in_bounds_def agent_pos_def nav_rejected_def
  passenger_flag_ok_def terminal_is_goal_def stuck_spec_def same_but_fuel_def
  fuel_store_def after_dispatch_def navigation_def
  compute_reward_features_def dot_def taxi_reward_func_def error_check_other_def
  transition_def reward_def Let_def

section \<open>The claims\<close>

subsection \<open>C9: the agent stays on the grid\<close>

text \<open>
  Claim C9. On every trajectory that starts from a state whose agent is on the grid, the
  agent's coordinates satisfy \<open>1 \<le> x \<le> width\<close> and \<open>1 \<le> y \<le> height\<close> in every
  state reached. A navigation action whose destination leaves the grid, or whose path a
  wall blocks, is rejected: the agent's position in the returned state is the position
  it had, not a clamped one.
\<close>

theorem agent_stays_in_bounds:
  assumes "r < length h"
  shows "(in_bounds m (h ! r) \<longrightarrow> run m h r steps = (h', Inr r') \<longrightarrow> in_bounds m (h' ! r'))
       \<and> (nav_rejected m (h ! r) action \<longrightarrow>
            taxi_transition_func m u1 u2 h r action = (h1, Inr r1) \<longrightarrow>
            agent_pos (h1 ! r1) = agent_pos (h ! r))"
proof (intro conjI impI)
  assume "in_bounds m (h ! r)" and "run m h r steps = (h', Inr r')"
  then show "in_bounds m (h' ! r')"
    using run_invariant [of "in_bounds m" m r h steps h' r'] assms next_contents_in_bounds
    by blast
next
  assume "nav_rejected m (h ! r) action"
    and "taxi_transition_func m u1 u2 h r action = (h1, Inr r1)"
  then show "agent_pos (h1 ! r1) = agent_pos (h ! r)"
    using transition_contents [OF assms] nav_rejected_pos by simp
qed

theorem agent_stays_in_bounds_witness:
  "0 < length [ex_state] \<and> in_bounds ex_mdp ([ex_state] ! 0)
   \<and> run ex_mdp [ex_state] 0 [(1, 1, ''right''), (1, 1, ''up'')] =
       ([ex_state,
         ex_state\<lparr>agent_obj := (agent_obj ex_state)\<lparr>ag_x := 2\<rparr>,
                  hotswap_stations := [\<lparr>loc_x = 2, loc_y = 2\<rparr>]\<rparr>,
         ex_state\<lparr>agent_obj := (agent_obj ex_state)\<lparr>ag_x := 2, ag_y := 2\<rparr>,
                  hotswap_stations := [\<lparr>loc_x = 2, loc_y = 2\<rparr>]\<rparr>], Inr 2)
   \<and> in_bounds ex_mdp
        (ex_state\<lparr>agent_obj := (agent_obj ex_state)\<lparr>ag_x := 2, ag_y := 2\<rparr>,
                  hotswap_stations := [\<lparr>loc_x = 2, loc_y = 2\<rparr>]\<rparr>)
   \<and> nav_rejected ex_mdp ([ex_state] ! 0) ''left''
   \<and> taxi_transition_func ex_mdp 1 1 [ex_state] 0 ''left'' = ([ex_state], Inr 0)
   \<and> agent_pos ([ex_state] ! 0) = \<lparr>loc_x = 1, loc_y = 1\<rparr>"
  using agent_stays_in_bounds [of 0 "[ex_state]" ex_mdp "[(1, 1, ''right''), (1, 1, ''up'')]"
      "[ex_state,
         ex_state\<lparr>agent_obj := (agent_obj ex_state)\<lparr>ag_x := 2\<rparr>,
                  hotswap_stations := [\<lparr>loc_x = 2, loc_y = 2\<rparr>]\<rparr>,
         ex_state\<lparr>agent_obj := (agent_obj ex_state)\<lparr>ag_x := 2, ag_y := 2\<rparr>,
                  hotswap_stations := [\<lparr>loc_x = 2, loc_y = 2\<rparr>]\<rparr>]" 2 "''left''" 1 1 "[ex_state]" 0]
  by (simp add: eval_defs)

subsection \<open>C8: hotswap stations are only removed\<close>

text \<open>
  Claim C8. Across every trajectory generated by repeated transition calls, the length
  of the hotswap station list does not increase. A transition whose agent left its cell
  removes the first station of the list that lies on the cell the agent left, if there
  is one; every other transition leaves the list as it was. No transition adds a station.
\<close>

theorem hotswap_stations_only_removed:
  assumes "r < length h"
  shows "(taxi_transition_func m u1 u2 h r action = (h1, Inr r1) \<longrightarrow>
            hotswap_stations (h1 ! r1) =
              (if agent_pos (h1 ! r1) \<noteq> agent_pos (h ! r)
               then remove1 (agent_pos (h ! r)) (hotswap_stations (h ! r))
               else hotswap_stations (h ! r)))
       \<and> (run m h r steps = (h', Inr r') \<longrightarrow>
            length (hotswap_stations (h' ! r')) \<le> length (hotswap_stations (h ! r)))"
proof (intro conjI impI)
  assume "taxi_transition_func m u1 u2 h r action = (h1, Inr r1)"
  then show "hotswap_stations (h1 ! r1) =
      (if agent_pos (h1 ! r1) \<noteq> agent_pos (h ! r)
       then remove1 (agent_pos (h ! r)) (hotswap_stations (h ! r))
       else hotswap_stations (h ! r))"
    using transition_contents [OF assms] next_contents_hotswap by simp
next
  let ?P = "\<lambda>s. length (hotswap_stations s) \<le> length (hotswap_stations (h ! r))"
  assume "run m h r steps = (h', Inr r')"
  moreover have "\<And>u1 u2 s action. ?P s \<Longrightarrow> ?P (next_contents m u1 u2 s action)"
    using next_contents_hotswap_length order_trans by blast
  ultimately show "length (hotswap_stations (h' ! r')) \<le> length (hotswap_stations (h ! r))"
    using run_invariant [of ?P m r h steps h' r'] assms by simp
qed

theorem hotswap_stations_only_removed_witness:
  "0 < length [ex_state]
   \<and> taxi_transition_func ex_mdp 1 1 [ex_state] 0 ''right'' =
       ([ex_state,
         ex_state\<lparr>agent_obj := (agent_obj ex_state)\<lparr>ag_x := 2\<rparr>,
                  hotswap_stations := [\<lparr>loc_x = 2, loc_y = 2\<rparr>]\<rparr>], Inr 1)
   \<and> remove1 (agent_pos ex_state) (hotswap_stations ex_state) = [\<lparr>loc_x = 2, loc_y = 2\<rparr>]
   \<and> run ex_mdp [ex_state] 0 [(1, 1, ''right''), (1, 1, ''up'')] =
       ([ex_state,
         ex_state\<lparr>agent_obj := (agent_obj ex_state)\<lparr>ag_x := 2\<rparr>,
                  hotswap_stations := [\<lparr>loc_x = 2, loc_y = 2\<rparr>]\<rparr>,
         ex_state\<lparr>agent_obj := (agent_obj ex_state)\<lparr>ag_x := 2, ag_y := 2\<rparr>,
                  hotswap_stations := [\<lparr>loc_x = 2, loc_y = 2\<rparr>]\<rparr>], Inr 2)
   \<and> length [\<lparr>loc_x = 2, loc_y = 2\<rparr>] \<le> length (hotswap_stations ex_state)"
  using hotswap_stations_only_removed [of 0 "[ex_state]" ex_mdp 1 1 "''right''"
      "[ex_state,
         ex_state\<lparr>agent_obj := (agent_obj ex_state)\<lparr>ag_x := 2\<rparr>,
                  hotswap_stations := [\<lparr>loc_x = 2, loc_y = 2\<rparr>]\<rparr>]" 1
      "[(1, 1, ''right''), (1, 1, ''up'')]"
      "[ex_state,
         ex_state\<lparr>agent_obj := (agent_obj ex_state)\<lparr>ag_x := 2\<rparr>,
                  hotswap_stations := [\<lparr>loc_x = 2, loc_y = 2\<rparr>]\<rparr>,
         ex_state\<lparr>agent_obj := (agent_obj ex_state)\<lparr>ag_x := 2, ag_y := 2\<rparr>,
                  hotswap_stations := [\<lparr>loc_x = 2, loc_y = 2\<rparr>]\<rparr>]" 2]
  by (simp add: eval_defs)

subsection \<open>C3: pickup and the passenger flag\<close>

text \<open>
  Claim C3, as amended. For every state with \<^verbatim>\<open>agent.has_passenger == 0\<close>, pickup sets
  \<^verbatim>\<open>in_taxi = 1\<close> on every passenger that is on the agent's cell (not only on the first
  one, and whatever its \<^verbatim>\<open>in_taxi\<close> was), sets \<^verbatim>\<open>has_passenger = 1\<close> iff there is such
  a passenger, and leaves all other passengers unchanged. Consequently, on every
  trajectory from a state where \<^verbatim>\<open>has_passenger == 1\<close> holds iff some passenger has
  \<^verbatim>\<open>in_taxi == 1\<close>, this equivalence holds in every state reached; the number of
  passengers in the taxi is not bounded by 1.
\<close>

theorem pickup_takes_every_colocated_passenger:
  assumes "r < length h"
  shows "(has_passenger (agent_obj (h ! r)) = 0 \<longrightarrow> agent_pickup h r = (h1, r1) \<longrightarrow>
            passengers (h1 ! r1) =
              map (\<lambda>p. if colocated (agent_obj (h ! r)) p then p\<lparr>in_taxi := 1\<rparr> else p)
                (passengers (h ! r))
            \<and> has_passenger (agent_obj (h1 ! r1)) =
                (if list_ex (colocated (agent_obj (h ! r))) (passengers (h ! r)) then 1 else 0))
       \<and> (passenger_flag_ok (h ! r) \<longrightarrow> run m h r steps = (h', Inr r') \<longrightarrow>
            passenger_flag_ok (h' ! r'))"
proof (intro conjI impI)
  assume z: "has_passenger (agent_obj (h ! r)) = 0" and p: "agent_pickup h r = (h1, r1)"
  have e: "h1 ! r1 = pickup_effect (h ! r)"
    using p agent_pickup_eq [OF assms] by auto
  show "passengers (h1 ! r1) =
      map (\<lambda>p. if colocated (agent_obj (h ! r)) p then p\<lparr>in_taxi := 1\<rparr> else p)
        (passengers (h ! r))"
    using z by (simp add: e pickup_effect_def)
  show "has_passenger (agent_obj (h1 ! r1)) =
      (if list_ex (colocated (agent_obj (h ! r))) (passengers (h ! r)) then 1 else 0)"
    using z by (simp add: e pickup_effect_def)
next
  assume "passenger_flag_ok (h ! r)" and "run m h r steps = (h', Inr r')"
  then show "passenger_flag_ok (h' ! r')"
    using run_invariant [of passenger_flag_ok m r h steps h' r'] assms next_contents_flag_ok
    by blast
qed

theorem pickup_takes_every_colocated_passenger_witness:
  "0 < length [ex_state_two] \<and> has_passenger (agent_obj ([ex_state_two] ! 0)) = 0
   \<and> agent_pickup [ex_state_two] 0 =
       ([ex_state_two,
         ex_state_two\<lparr>agent_obj := (agent_obj ex_state_two)\<lparr>has_passenger := 1\<rparr>,
           passengers := [ex_passenger\<lparr>in_taxi := 1\<rparr>, ex_passenger\<lparr>dest_x := 2, in_taxi := 1\<rparr>]\<rparr>],
        1)
   \<and> list_ex (colocated (agent_obj ([ex_state_two] ! 0))) (passengers ([ex_state_two] ! 0))
   \<and> passenger_flag_ok ([ex_state_two] ! 0)
   \<and> run ex_mdp [ex_state_two] 0 [(1, 1, ''pickup''), (1, 1, ''up'')] =
       ([ex_state_two,
         ex_state_two\<lparr>agent_obj := (agent_obj ex_state_two)\<lparr>has_passenger := 1\<rparr>,
           passengers := [ex_passenger\<lparr>in_taxi := 1\<rparr>, ex_passenger\<lparr>dest_x := 2, in_taxi := 1\<rparr>]\<rparr>,
         ex_state_two\<lparr>agent_obj := (agent_obj ex_state_two)\<lparr>ag_y := 2, has_passenger := 1\<rparr>,
           passengers := [ex_passenger\<lparr>pass_y := 2, in_taxi := 1\<rparr>,
                          ex_passenger\<lparr>pass_y := 2, dest_x := 2, in_taxi := 1\<rparr>],
           hotswap_stations := [\<lparr>loc_x = 2, loc_y = 2\<rparr>]\<rparr>],
        Inr 2)
   \<and> passenger_flag_ok
        (ex_state_two\<lparr>agent_obj := (agent_obj ex_state_two)\<lparr>ag_y := 2, has_passenger := 1\<rparr>,
           passengers := [ex_passenger\<lparr>pass_y := 2, in_taxi := 1\<rparr>,
                          ex_passenger\<lparr>pass_y := 2, dest_x := 2, in_taxi := 1\<rparr>],
           hotswap_stations := [\<lparr>loc_x = 2, loc_y = 2\<rparr>]\<rparr>)"
  using pickup_takes_every_colocated_passenger [of 0 "[ex_state_two]"
      "[ex_state_two,
         ex_state_two\<lparr>agent_obj := (agent_obj ex_state_two)\<lparr>has_passenger := 1\<rparr>,
           passengers := [ex_passenger\<lparr>in_taxi := 1\<rparr>, ex_passenger\<lparr>dest_x := 2, in_taxi := 1\<rparr>]\<rparr>]"
      1 ex_mdp "[(1, 1, ''pickup''), (1, 1, ''up'')]"
      "[ex_state_two,
         ex_state_two\<lparr>agent_obj := (agent_obj ex_state_two)\<lparr>has_passenger := 1\<rparr>,
           passengers := [ex_passenger\<lparr>in_taxi := 1\<rparr>, ex_passenger\<lparr>dest_x := 2, in_taxi := 1\<rparr>]\<rparr>,
         ex_state_two\<lparr>agent_obj := (agent_obj ex_state_two)\<lparr>ag_y := 2, has_passenger := 1\<rparr>,
           passengers := [ex_passenger\<lparr>pass_y := 2, in_taxi := 1\<rparr>,
                          ex_passenger\<lparr>pass_y := 2, dest_x := 2, in_taxi := 1\<rparr>],
           hotswap_stations := [\<lparr>loc_x = 2, loc_y = 2\<rparr>]\<rparr>]" 2]
  by (simp add: eval_defs colocated_def)

text \<open>
  Claim C3 as stated fails for two passengers waiting on the agent's cell: the loop of
  \<^verbatim>\<open>agent_pickup\<close> has no \<^verbatim>\<open>break\<close>, and both are in the taxi afterwards.
\<close>

theorem pickup_takes_every_colocated_passenger_counterexample:
  "has_passenger (agent_obj ([ex_state_two] ! 0)) = 0
   \<and> snd (taxi_transition_func ex_mdp 1 1 [ex_state_two] 0 ''pickup'') = Inr 1
   \<and> map in_taxi (passengers (fst (taxi_transition_func ex_mdp 1 1 [ex_state_two] 0 ''pickup'') ! 1))
       = [1, 1]
   \<and> has_passenger (agent_obj (fst (taxi_transition_func ex_mdp 1 1 [ex_state_two] 0 ''pickup'') ! 1))
       = 1"
  by (simp add: eval_defs)

subsection \<open>C2: absorbing states\<close>

text \<open>
  Claim C2, as amended. For every state in goal configuration (every passenger at its
  destination and not in the taxi) and every valid action, the transition function
  returns that same state object unchanged. The test that makes a state absorbing is
  the goal configuration, not the \<^verbatim>\<open>is_terminal\<close> flag. On every trajectory from a state
  whose flag, if set, goes with a goal configuration (in particular from a state whose
  flag is not set), every state reached with \<^verbatim>\<open>is_terminal\<close> true is absorbing.
\<close>

theorem goal_states_are_absorbing:
  "(is_taxi_goal_state (h ! r) \<longrightarrow> error_check (h ! r) action = None \<longrightarrow>
      taxi_transition_func m u1 u2 h r action = (h, Inr r))
   \<and> (r < length h \<longrightarrow> terminal_is_goal (h ! r) \<longrightarrow> run m h r steps = (h', Inr r') \<longrightarrow>
        is_terminal (h' ! r') \<longrightarrow> error_check (h' ! r') action = None \<longrightarrow>
        taxi_transition_func m u1 u2 h' r' action = (h', Inr r'))"
proof (intro conjI impI)
  assume "is_taxi_goal_state (h ! r)" and "error_check (h ! r) action = None"
  then show "taxi_transition_func m u1 u2 h r action = (h, Inr r)"
    by (simp add: taxi_transition_func_goal)
next
  assume "r < length h" and "terminal_is_goal (h ! r)" and "run m h r steps = (h', Inr r')"
  then have "terminal_is_goal (h' ! r')"
    using run_invariant [of terminal_is_goal m r h steps h' r'] next_contents_terminal_is_goal
    by blast
  moreover assume "is_terminal (h' ! r')" and "error_check (h' ! r') action = None"
  ultimately show "taxi_transition_func m u1 u2 h' r' action = (h', Inr r')"
    by (simp add: terminal_is_goal_def taxi_transition_func_goal)
qed

theorem goal_states_are_absorbing_witness:
  "is_taxi_goal_state ([ex_state_delivered] ! 0)
   \<and> error_check ([ex_state_delivered] ! 0) ''up'' = None
   \<and> taxi_transition_func ex_mdp 1 1 [ex_state_delivered] 0 ''up'' = ([ex_state_delivered], Inr 0)
   \<and> 0 < length [ex_state_arrived] \<and> terminal_is_goal ([ex_state_arrived] ! 0)
   \<and> run ex_mdp [ex_state_arrived] 0 [(1, 1, ''dropoff'')] =
       ([ex_state_arrived, ex_state_done], Inr 1)
   \<and> is_terminal ([ex_state_arrived, ex_state_done] ! 1)
   \<and> error_check ([ex_state_arrived, ex_state_done] ! 1) ''down'' = None
   \<and> taxi_transition_func ex_mdp 1 1 [ex_state_arrived, ex_state_done] 1 ''down'' =
       ([ex_state_arrived, ex_state_done], Inr 1)"
  using goal_states_are_absorbing [of "[ex_state_delivered]" 0 "''up''" ex_mdp 1 1]
    goal_states_are_absorbing [of "[ex_state_arrived]" 0 "''down''" ex_mdp 1 1
      "[(1, 1, ''dropoff'')]" "[ex_state_arrived, ex_state_done]" 1]
  by (simp add: eval_defs)

text \<open>
  Claim C2 as stated fails in both directions: a state with the flag set by hand and
  an undelivered passenger moves on \<^verbatim>\<open>up\<close>, and a state without the flag whose passenger
  is already delivered is absorbing.
\<close>

theorem goal_states_are_absorbing_counterexample:
  "is_terminal ([ex_state_flagged] ! 0)
   \<and> error_check ([ex_state_flagged] ! 0) ''up'' = None
   \<and> taxi_transition_func ex_mdp 1 1 [ex_state_flagged] 0 ''up'' =
       ([ex_state_flagged,
         ex_state_flagged\<lparr>agent_obj := (agent_obj ex_state_flagged)\<lparr>ag_y := 2\<rparr>,
           hotswap_stations := [\<lparr>loc_x = 2, loc_y = 2\<rparr>]\<rparr>], Inr 1)
   \<and> \<not> is_terminal ([ex_state_delivered] ! 0)
   \<and> taxi_transition_func ex_mdp 1 1 [ex_state_delivered] 0 ''pickup'' =
       ([ex_state_delivered], Inr 0)"
  by (simp add: eval_defs)

subsection \<open>C4: marking the goal\<close>

text \<open>
  Claim C4, as amended. For every state that is neither flagged terminal nor in goal
  configuration, and every valid action, the transition function returns a state that
  has \<^verbatim>\<open>is_terminal\<close> and \<^verbatim>\<open>is_goal\<close> both true iff every passenger in it is at its
  destination and not in the taxi, whichever action was supplied. A state that already
  is in goal configuration is returned as it is, with its flags untouched.
\<close>

theorem goal_marking:
  assumes "r < length h" and "\<not> is_terminal (h ! r)" and "\<not> is_taxi_goal_state (h ! r)"
    and "error_check (h ! r) action = None"
  shows "\<exists>h1 r1. taxi_transition_func m u1 u2 h r action = (h1, Inr r1)
           \<and> ((is_terminal (h1 ! r1) \<and> is_goal (h1 ! r1))
                = list_all passenger_delivered (passengers (h1 ! r1)))"
proof -
  obtain h1 r1 where t: "taxi_transition_func m u1 u2 h r action = (h1, Inr r1)"
    using transition_valid_returns [OF assms(1,4)] by blast
  have c: "h1 ! r1 = next_contents m u1 u2 (h ! r) action"
    using transition_contents [OF assms(1) t] by simp
  have "is_terminal (h1 ! r1) = is_taxi_goal_state (h1 ! r1)"
    using next_contents_terminal [OF assms(3,2)] c by simp
  moreover have "is_taxi_goal_state (h1 ! r1) \<longrightarrow> is_goal (h1 ! r1)"
    using next_contents_goal_flag [OF assms(3)] c by simp
  ultimately have "(is_terminal (h1 ! r1) \<and> is_goal (h1 ! r1))
      = list_all passenger_delivered (passengers (h1 ! r1))"
    by (auto simp: is_taxi_goal_state_def)
  then show ?thesis using t by blast
qed

theorem goal_marking_witness:
  "0 < length [ex_state_arrived] \<and> \<not> is_terminal ([ex_state_arrived] ! 0)
   \<and> \<not> is_taxi_goal_state ([ex_state_arrived] ! 0)
   \<and> error_check ([ex_state_arrived] ! 0) ''dropoff'' = None
   \<and> taxi_transition_func ex_mdp 1 1 [ex_state_arrived] 0 ''dropoff'' =
       ([ex_state_arrived, ex_state_done], Inr 1)
   \<and> is_terminal ex_state_done \<and> is_goal ex_state_done
   \<and> list_all passenger_delivered (passengers ex_state_done)"
  using goal_marking [of 0 "[ex_state_arrived]" "''dropoff''" ex_mdp 1 1]
  by (simp add: eval_defs)

text \<open>
  Claim C4 as stated fails for an unflagged state whose passenger is already delivered:
  it is returned with \<^verbatim>\<open>is_terminal\<close> and \<^verbatim>\<open>is_goal\<close> still false.
\<close>

theorem goal_marking_counterexample:
  "\<not> is_terminal ([ex_state_delivered] ! 0)
   \<and> error_check ([ex_state_delivered] ! 0) ''up'' = None
   \<and> taxi_transition_func ex_mdp 1 1 [ex_state_delivered] 0 ''up'' = ([ex_state_delivered], Inr 0)
   \<and> list_all passenger_delivered (passengers ([ex_state_delivered] ! 0))
   \<and> \<not> is_terminal ([ex_state_delivered] ! 0) \<and> \<not> is_goal ([ex_state_delivered] ! 0)"
  by (simp add: eval_defs)

subsection \<open>C10: what dropoff changes\<close>

text \<open>
  Claim C10, as amended. For every state, \<^verbatim>\<open>agent_dropoff\<close> changes only the agent's
  \<^verbatim>\<open>has_passenger\<close> attribute and the passengers' \<^verbatim>\<open>in_taxi\<close> attributes. When
  \<^verbatim>\<open>agent.has_passenger == 1\<close> it sets \<^verbatim>\<open>in_taxi = 0\<close> on every passenger with
  \<^verbatim>\<open>in_taxi == 1\<close>, and it sets \<^verbatim>\<open>has_passenger = 0\<close> provided that there is such a
  passenger; when \<^verbatim>\<open>agent.has_passenger\<close> is not 1 it changes nothing. In either case no
  coordinate, destination, hotswap station or terminal or goal flag differs between the
  input and the output, and the input state object is left as it was.
\<close>

theorem agent_dropoff_frame:
  assumes "r < length h" and "agent_dropoff h r = (h1, r1)"
  shows "passengers (h1 ! r1) =
           (if has_passenger (agent_obj (h ! r)) = 1
            then map (\<lambda>p. if in_taxi p = 1 then p\<lparr>in_taxi := 0\<rparr> else p) (passengers (h ! r))
            else passengers (h ! r))
       \<and> agent_obj (h1 ! r1) =
           (if has_passenger (agent_obj (h ! r)) = 1
               \<and> list_ex (\<lambda>p. in_taxi p = 1) (passengers (h ! r))
            then (agent_obj (h ! r))\<lparr>has_passenger := 0\<rparr> else agent_obj (h ! r))
       \<and> hotswap_stations (h1 ! r1) = hotswap_stations (h ! r)
       \<and> is_terminal (h1 ! r1) = is_terminal (h ! r)
       \<and> is_goal (h1 ! r1) = is_goal (h ! r)
       \<and> map pass_x (passengers (h1 ! r1)) = map pass_x (passengers (h ! r))
       \<and> map pass_y (passengers (h1 ! r1)) = map pass_y (passengers (h ! r))
       \<and> map dest_x (passengers (h1 ! r1)) = map dest_x (passengers (h ! r))
       \<and> map dest_y (passengers (h1 ! r1)) = map dest_y (passengers (h ! r))
       \<and> h1 ! r = h ! r"
proof -
  have e: "h1 = h @ [dropoff_effect (h ! r)]" "r1 = length h"
    using assms(2) agent_dropoff_eq [OF assms(1)] by auto
  then have c: "h1 ! r1 = dropoff_effect (h ! r)" by simp
  have k: "h1 ! r = h ! r" using e assms(1) by (simp add: nth_append)
  have "map pass_x (passengers (dropoff_effect (h ! r))) = map pass_x (passengers (h ! r))"
    "map pass_y (passengers (dropoff_effect (h ! r))) = map pass_y (passengers (h ! r))"
    "map dest_x (passengers (dropoff_effect (h ! r))) = map dest_x (passengers (h ! r))"
    "map dest_y (passengers (dropoff_effect (h ! r))) = map dest_y (passengers (h ! r))"
    by (simp_all add: dropoff_effect_def)
  then show ?thesis
    unfolding c k by (simp add: dropoff_effect_def)
qed

theorem agent_dropoff_frame_witness:
  "0 < length [ex_state_riding]
   \<and> agent_dropoff [ex_state_riding] 0 = ([ex_state_riding, ex_state], 1)
   \<and> passengers ([ex_state_riding, ex_state] ! 1) =
       map (\<lambda>p. if in_taxi p = 1 then p\<lparr>in_taxi := 0\<rparr> else p) (passengers ([ex_state_riding] ! 0))
   \<and> agent_obj ([ex_state_riding, ex_state] ! 1) =
       (agent_obj ([ex_state_riding] ! 0))\<lparr>has_passenger := 0\<rparr>"
  using agent_dropoff_frame [of 0 "[ex_state_riding]" "[ex_state_riding, ex_state]" 1]
  by (simp add: eval_defs)

text \<open>
  Claim C10 as stated fails for an agent whose flag is 1 while no passenger is in the
  taxi: the flag is reset inside the test on the passenger, so it stays 1.
\<close>

theorem agent_dropoff_frame_counterexample:
  "has_passenger (agent_obj ([ex_state_flag_only] ! 0)) = 1
   \<and> agent_dropoff [ex_state_flag_only] 0 = ([ex_state_flag_only, ex_state_flag_only], 1)
   \<and> has_passenger (agent_obj ([ex_state_flag_only, ex_state_flag_only] ! 1)) = 1"
  by (simp add: eval_defs)

subsection \<open>C5: the stuck outcome\<close>

text \<open>
  Claim C5, as amended. In every transition call on a state that is not in goal
  configuration (the states that the transition function does not treat as absorbing),
  the stuck outcome is
  the disjunction of the base slip draw (the draw is below \<^verbatim>\<open>slip_prob\<close>) and, when
  the agent's cell has a traffic entry with probability \<open>p\<close>, an additional draw below
  \<open>p\<close>. A true stuck outcome turns the four navigation actions into no-ops: the
  state object that was passed in is returned, changed by the fuel decrement only, which
  every action pays. Without it, a navigation action inside the grid is dispatched to
  \<^verbatim>\<open>move_agent\<close>. The actions pickup, dropoff and refuel are dispatched to their effect
  functions whatever the stuck outcome is.
\<close>

theorem stuck_blocks_navigation_only:
  assumes "r < length h" and "error_check (h ! r) action = None"
    and "\<not> is_taxi_goal_state (h ! r)"
  shows "(action \<in> navigation \<longrightarrow> stuck_spec m (h ! r) u1 u2 \<longrightarrow>
            taxi_transition_func m u1 u2 h r action = (fuel_store m h r, Inr r))
       \<and> (\<not> stuck_spec m (h ! r) u1 u2 \<longrightarrow>
            (action = ''up'' \<longrightarrow> get_agent_y (h ! r) < height m \<longrightarrow>
               taxi_transition_func m u1 u2 h r action =
                 after_dispatch r (move_agent m (fuel_store m h r) r 0 1))
          \<and> (action = ''down'' \<longrightarrow> 1 < get_agent_y (h ! r) \<longrightarrow>
               taxi_transition_func m u1 u2 h r action =
                 after_dispatch r (move_agent m (fuel_store m h r) r 0 (- 1)))
          \<and> (action = ''right'' \<longrightarrow> get_agent_x (h ! r) < width m \<longrightarrow>
               taxi_transition_func m u1 u2 h r action =
                 after_dispatch r (move_agent m (fuel_store m h r) r 1 0))
          \<and> (action = ''left'' \<longrightarrow> 1 < get_agent_x (h ! r) \<longrightarrow>
               taxi_transition_func m u1 u2 h r action =
                 after_dispatch r (move_agent m (fuel_store m h r) r (- 1) 0)))
       \<and> (action = ''pickup'' \<longrightarrow>
            taxi_transition_func m u1 u2 h r action =
              after_dispatch r (agent_pickup (fuel_store m h r) r))
       \<and> (action = ''dropoff'' \<longrightarrow>
            taxi_transition_func m u1 u2 h r action =
              after_dispatch r (agent_dropoff (fuel_store m h r) r))
       \<and> (action = ''refuel'' \<longrightarrow>
            taxi_transition_func m u1 u2 h r action =
              after_dispatch r (agent_refuel m (fuel_store m h r) r))"
proof -
  note d = transition_dispatch [OF assms(2,3), of m u1 u2]
  note p = fuel_store_pos [OF assms(1), of m]
  have nav: "action \<in> navigation \<longrightarrow> stuck_spec m (h ! r) u1 u2 \<longrightarrow>
      taxi_transition_func m u1 u2 h r action = (fuel_store m h r, Inr r)"
    using transition_stuck [OF assms] by blast
  have free: "\<not> stuck_spec m (h ! r) u1 u2 \<Longrightarrow>
      taxi_transition_func m u1 u2 h r action =
        after_dispatch r (dispatch m False (fuel_store m h r) r action)"
    using d by (simp add: stuck_draw_eq)
  have up: "\<not> stuck_spec m (h ! r) u1 u2 \<Longrightarrow> action = ''up'' \<Longrightarrow>
      get_agent_y (h ! r) < height m \<Longrightarrow>
      taxi_transition_func m u1 u2 h r action =
        after_dispatch r (move_agent m (fuel_store m h r) r 0 1)"
    using free dispatch_free(1) [of "fuel_store m h r" r m] p by simp
  have down: "\<not> stuck_spec m (h ! r) u1 u2 \<Longrightarrow> action = ''down'' \<Longrightarrow>
      1 < get_agent_y (h ! r) \<Longrightarrow>
      taxi_transition_func m u1 u2 h r action =
        after_dispatch r (move_agent m (fuel_store m h r) r 0 (- 1))"
    using free dispatch_free(2) [of "fuel_store m h r" r m] p by simp
  have right: "\<not> stuck_spec m (h ! r) u1 u2 \<Longrightarrow> action = ''right'' \<Longrightarrow>
      get_agent_x (h ! r) < width m \<Longrightarrow>
      taxi_transition_func m u1 u2 h r action =
        after_dispatch r (move_agent m (fuel_store m h r) r 1 0)"
    using free dispatch_free(3) [of "fuel_store m h r" r m] p by simp
  have left: "\<not> stuck_spec m (h ! r) u1 u2 \<Longrightarrow> action = ''left'' \<Longrightarrow>
      1 < get_agent_x (h ! r) \<Longrightarrow>
      taxi_transition_func m u1 u2 h r action =
        after_dispatch r (move_agent m (fuel_store m h r) r (- 1) 0)"
    using free dispatch_free(4) [of "fuel_store m h r" r m] p by simp
  have pk: "action = ''pickup'' \<Longrightarrow> taxi_transition_func m u1 u2 h r action =
      after_dispatch r (agent_pickup (fuel_store m h r) r)"
    using d by (simp add: dispatch_pickup)
  have dr: "action = ''dropoff'' \<Longrightarrow> taxi_transition_func m u1 u2 h r action =
      after_dispatch r (agent_dropoff (fuel_store m h r) r)"
    using d by (simp add: dispatch_dropoff)
  have rf: "action = ''refuel'' \<Longrightarrow> taxi_transition_func m u1 u2 h r action =
      after_dispatch r (agent_refuel m (fuel_store m h r) r)"
    using d by (simp add: dispatch_refuel)
  show ?thesis using nav up down right left pk dr rf by blast
qed

theorem stuck_blocks_navigation_only_witness:
  "0 < length [ex_state_fuel] \<and> error_check ([ex_state_fuel] ! 0) ''up'' = None
   \<and> \<not> is_taxi_goal_state ([ex_state_fuel] ! 0)
   \<and> ''up'' \<in> navigation \<and> stuck_spec ex_mdp_traffic ([ex_state_fuel] ! 0) 1 0.3
   \<and> taxi_transition_func ex_mdp_traffic 1 0.3 [ex_state_fuel] 0 ''up'' =
       ([ex_state_fuel\<lparr>agent_obj := (agent_obj ex_state_fuel)\<lparr>fuel := Some 4\<rparr>\<rparr>], Inr 0)
   \<and> \<not> stuck_spec ex_mdp_traffic ([ex_state_fuel] ! 0) 1 0.9
   \<and> get_agent_x ([ex_state_fuel] ! 0) < width ex_mdp_traffic
   \<and> taxi_transition_func ex_mdp_traffic 1 0.9 [ex_state_fuel] 0 ''right'' =
       ([ex_state_fuel\<lparr>agent_obj := (agent_obj ex_state_fuel)\<lparr>fuel := Some 4\<rparr>\<rparr>,
         ex_state_fuel\<lparr>agent_obj := (agent_obj ex_state_fuel)\<lparr>ag_x := 2, fuel := Some 4\<rparr>,
           hotswap_stations := [\<lparr>loc_x = 2, loc_y = 2\<rparr>]\<rparr>], Inr 1)
   \<and> stuck_spec ex_mdp_traffic ([ex_state_fuel] ! 0) 0 0
   \<and> taxi_transition_func ex_mdp_traffic 0 0 [ex_state_fuel] 0 ''pickup'' =
       ([ex_state_fuel\<lparr>agent_obj := (agent_obj ex_state_fuel)\<lparr>fuel := Some 4\<rparr>\<rparr>,
         ex_state_fuel\<lparr>agent_obj := (agent_obj ex_state_fuel)\<lparr>has_passenger := 1, fuel := Some 4\<rparr>,
           passengers := [ex_passenger\<lparr>in_taxi := 1\<rparr>]\<rparr>], Inr 1)"
  using stuck_blocks_navigation_only [of 0 "[ex_state_fuel]" "''up''" ex_mdp_traffic 1 "0.3"]
    stuck_blocks_navigation_only [of 0 "[ex_state_fuel]" "''right''" ex_mdp_traffic 1 "0.9"]
    stuck_blocks_navigation_only [of 0 "[ex_state_fuel]" "''pickup''" ex_mdp_traffic 0 0]
  by (simp add: eval_defs)

text \<open>
  Claim C5 as stated fails for a state whose \<^verbatim>\<open>is_terminal\<close> flag is false and whose
  passenger is already delivered: the transition function takes its \<^verbatim>\<open>else\<close> branch and
  returns the state as it is. With the agent on a fuel station, \<^verbatim>\<open>refuel\<close> is not
  dispatched to \<^verbatim>\<open>agent_refuel\<close>, which would have filled the tank.
\<close>

theorem stuck_blocks_navigation_only_counterexample:
  "\<not> is_terminal ([ex_state_delivered_fuel] ! 0)
   \<and> error_check ([ex_state_delivered_fuel] ! 0) ''refuel'' = None
   \<and> fuel (agent_obj ([ex_state_delivered_fuel] ! 0)) = Some 5
   \<and> taxi_transition_func ex_mdp_traffic 1 1 [ex_state_delivered_fuel] 0 ''refuel''
       = ([ex_state_delivered_fuel], Inr 0)
   \<and> fuel (agent_obj (fst (agent_refuel ex_mdp_traffic [ex_state_delivered_fuel] 0) ! 1))
       = Some 12"
  by (simp add: eval_defs)

subsection \<open>C1: the state object that is returned, and the input state\<close>

text \<open>
  Claim C1, as amended. For every state that is not in goal configuration (the states
  that the transition function does not treat as absorbing) and every valid action, the
  transition function returns a newly constructed state object when the action is
  pickup, dropoff or refuel, or a navigation action that is neither stuck nor rejected;
  for a stuck or rejected navigation action it returns the state object that was passed
  in. The caller's input state is left unchanged except for the agent's fuel attribute:
  no other agent attribute, no passenger attribute, no hotswap station and no terminal
  or goal flag of the input is modified, and no other state object is touched.
\<close>

theorem transition_frame:
  assumes "r < length h" and "error_check (h ! r) action = None"
    and "\<not> is_taxi_goal_state (h ! r)"
    and "taxi_transition_func m u1 u2 h r action = (h1, res)"
  shows "(if action \<in> navigation \<and> (stuck_spec m (h ! r) u1 u2 \<or> nav_rejected m (h ! r) action)
          then res = Inr r \<and> length h1 = length h
          else res = Inr (length h) \<and> length h1 = Suc (length h))
       \<and> same_but_fuel (h ! r) (h1 ! r)
       \<and> (\<forall>q<length h. q \<noteq> r \<longrightarrow> h1 ! q = h ! q)"
proof -
  let ?s0 = "fuel_effect m (h ! r)"
  let ?d = "dispatch_result m (stuck_draw m (h ! r) u1 u2) ?s0 action"
  note e = taxi_transition_func_eq [OF assms(1,2,3), of m u1 u2]
  have same: "(?d = None)
      = (action \<in> navigation \<and> (stuck_spec m (h ! r) u1 u2 \<or> nav_rejected m (h ! r) action))"
  proof (cases "action \<in> navigation")
    case True
    then show ?thesis using dispatch_result_nav [OF True, of m _ "h ! r"]
      by (simp add: stuck_draw_eq)
  next
    case False
    then have "action = ''pickup'' \<or> action = ''dropoff'' \<or> action = ''refuel''"
      using error_check_valid [OF assms(2)] by blast
    then show ?thesis using False dispatch_result_other by blast
  qed
  show ?thesis
  proof (cases ?d)
    case None
    then have "h1 = h[r := ?s0]" and "res = Inr r" using e assms(4) by simp_all
    then show ?thesis using None same assms(1) by (simp add: same_but_fuel_effect)
  next
    case (Some s')
    then have "h1 = h[r := ?s0] @ [post_effect ?s0 s']" and "res = Inr (length h)"
      using e assms(4) by simp_all
    then show ?thesis using Some same assms(1)
      by (auto simp: same_but_fuel_effect nth_append)
  qed
qed

theorem transition_frame_witness:
  "0 < length [ex_state_fuel] \<and> error_check ([ex_state_fuel] ! 0) ''up'' = None
   \<and> \<not> is_taxi_goal_state ([ex_state_fuel] ! 0)
   \<and> taxi_transition_func ex_mdp 1 1 [ex_state_fuel] 0 ''up'' =
       ([ex_state_fuel\<lparr>agent_obj := (agent_obj ex_state_fuel)\<lparr>fuel := Some 4\<rparr>\<rparr>,
         ex_state_fuel\<lparr>agent_obj := (agent_obj ex_state_fuel)\<lparr>ag_y := 2, fuel := Some 4\<rparr>,
           hotswap_stations := [\<lparr>loc_x = 2, loc_y = 2\<rparr>]\<rparr>], Inr 1)
   \<and> \<not> (''up'' \<in> navigation \<and>
          (stuck_spec ex_mdp ([ex_state_fuel] ! 0) 1 1 \<or> nav_rejected ex_mdp ([ex_state_fuel] ! 0) ''up''))
   \<and> same_but_fuel ([ex_state_fuel] ! 0)
        (ex_state_fuel\<lparr>agent_obj := (agent_obj ex_state_fuel)\<lparr>fuel := Some 4\<rparr>\<rparr>)"
  using transition_frame [of 0 "[ex_state_fuel]" "''up''" ex_mdp 1 1
      "[ex_state_fuel\<lparr>agent_obj := (agent_obj ex_state_fuel)\<lparr>fuel := Some 4\<rparr>\<rparr>,
         ex_state_fuel\<lparr>agent_obj := (agent_obj ex_state_fuel)\<lparr>ag_y := 2, fuel := Some 4\<rparr>,
           hotswap_stations := [\<lparr>loc_x = 2, loc_y = 2\<rparr>]\<rparr>]" "Inr 1"]
  by (simp add: eval_defs)

text \<open>
  Claim C1 as stated fails for a fuel-tracking state and a rejected navigation action:
  the object returned is the input object, and its fuel has been decremented in place.
\<close>

theorem transition_frame_counterexample:
  "\<not> is_terminal ([ex_state_fuel] ! 0) \<and> error_check ([ex_state_fuel] ! 0) ''left'' = None
   \<and> fuel (agent_obj ([ex_state_fuel] ! 0)) = Some 5
   \<and> snd (taxi_transition_func ex_mdp 1 1 [ex_state_fuel] 0 ''left'') = Inr 0
   \<and> fuel (agent_obj (fst (taxi_transition_func ex_mdp 1 1 [ex_state_fuel] 0 ''left'') ! 0)) = Some 4"
  by (simp add: eval_defs)

subsection \<open>C6: the reward features\<close>

text \<open>
  Claim C6. For every state, valid action and next state, the reward feature vector is
  \<open>[toll_flag, hotswap_flag, step_cost_flag]\<close>. The step cost flag is always 1. The toll
  flag is 1 iff the configuration has at least one toll and the agent moved off of a toll
  cell between the state and the next state; it is 0 whenever the configuration has no
  toll. The hotswap flag is 1 iff the agent vacated a hotswap station of the state
  between the state and the next state; it is 0 whenever the state has no hotswap
  station. The reward is the dot product of the three weights with this vector.
\<close>

theorem reward_features:
  "compute_reward_features m s s' =
     [if tolls m \<noteq> [] \<and> (\<exists>l\<in>set (tolls m). agent_at s l \<and> \<not> agent_at s' l) then 1 else 0,
      if \<exists>l\<in>set (hotswap_stations s). agent_at s l \<and> \<not> agent_at s' l then 1 else 0,
      1]
   \<and> (tolls m = [] \<longrightarrow> compute_reward_features m s s' ! 0 = 0)
   \<and> (hotswap_stations s = [] \<longrightarrow> compute_reward_features m s s' ! 1 = 0)
   \<and> (error_check s action = None \<longrightarrow> weights m = [w1, w2, w3] \<longrightarrow>
        taxi_reward_func m s action s' =
          Inr (w1 * of_int (compute_reward_features m s s' ! 0)
             + w2 * of_int (compute_reward_features m s s' ! 1)
             + w3 * of_int (compute_reward_features m s s' ! 2)))"
proof -
  have f: "compute_reward_features m s s' =
     [if tolls m \<noteq> [] \<and> (\<exists>l\<in>set (tolls m). agent_at s l \<and> \<not> agent_at s' l) then 1 else 0,
      if \<exists>l\<in>set (hotswap_stations s). agent_at s l \<and> \<not> agent_at s' l then 1 else 0,
      1]"
    using first_index_Some_iff [of "\<lambda>l. agent_at s l \<and> \<not> agent_at s' l" "hotswap_stations s"]
    by (auto simp: compute_reward_features_def moved_off_of_toll_def
        moved_off_of_hotswap_station_def list_ex_iff)
  have r: "error_check s action = None \<Longrightarrow> weights m = [w1, w2, w3] \<Longrightarrow>
      taxi_reward_func m s action s' =
        Inr (w1 * of_int (compute_reward_features m s s' ! 0)
           + w2 * of_int (compute_reward_features m s s' ! 1)
           + w3 * of_int (compute_reward_features m s s' ! 2))"
    unfolding f by (simp add: taxi_reward_func_def dot_def f)
  show ?thesis using r unfolding f by simp
qed

theorem reward_features_witness:
  "compute_reward_features ex_mdp ex_state
       (ex_state\<lparr>agent_obj := (agent_obj ex_state)\<lparr>ag_y := 2\<rparr>\<rparr>) = [1, 1, 1]
   \<and> compute_reward_features (ex_mdp\<lparr>tolls := []\<rparr>) (ex_state\<lparr>hotswap_stations := []\<rparr>)
       (ex_state\<lparr>agent_obj := (agent_obj ex_state)\<lparr>ag_y := 2\<rparr>\<rparr>) = [0, 0, 1]
   \<and> error_check ex_state ''up'' = None \<and> weights ex_mdp = [2, - 0.4, - 0.5]
   \<and> taxi_reward_func ex_mdp ex_state ''up''
       (ex_state\<lparr>agent_obj := (agent_obj ex_state)\<lparr>ag_y := 2\<rparr>\<rparr>) = Inr 1.1"
  using reward_features [of ex_mdp ex_state
      "ex_state\<lparr>agent_obj := (agent_obj ex_state)\<lparr>ag_y := 2\<rparr>\<rparr>" "''up''" 2 "- 0.4" "- 0.5"]
    reward_features [of "ex_mdp\<lparr>tolls := []\<rparr>" "ex_state\<lparr>hotswap_stations := []\<rparr>"
      "ex_state\<lparr>agent_obj := (agent_obj ex_state)\<lparr>ag_y := 2\<rparr>\<rparr>" "''up''" 2 "- 0.4" "- 0.5"]
  by (simp add: eval_defs)

subsection \<open>C7: the configuration error\<close>




end
